theory Spec2Isabelle
  imports Complex_Main
begin

section \<open>Values shared by the two scripts\<close>

text \<open>
  Every exception the modelled code can raise is a value of \<open>py_error\<close>, returned as
  \<open>Inl\<close>.
\<close>

datatype py_error =
  ZeroDivisionError | ValueError | TypeError | OverflowError | AttributeError | HTTPError

text \<open>
  A Python dict keeps its keys in insertion order, and \<open>find_bid\<close> depends on that
  order, so the boundary mapping is an association list; \<open>dict_set\<close> is the
  assignment \<open>d[k] = v\<close>: an existing key keeps its position, a new one goes last.
\<close>

fun dict_set :: "'k \<Rightarrow> 'v \<Rightarrow> ('k \<times> 'v) list \<Rightarrow> ('k \<times> 'v) list" where
  "dict_set k v [] = [(k, v)]"
| "dict_set k v ((k', v') # d) = (if k' = k then (k, v) # d else (k', v') # dict_set k v d)"

section \<open>Floats\<close>

text \<open>
  A Python float is an IEEE binary64 value: a finite number \<open>Fin x\<close>, one of the two
  infinities, or NaN. The negative zero is identified with zero. A value that comes
  out of \<open>float\<close>, out of a literal of the source or out of the buffer arithmetic of
  \<open>bounding_box\<close> is rounded to binary64 by \<open>to_float\<close>, to the nearest value, a tie
  to the even mantissa, a result beyond the range to an infinity.
\<close>

datatype pyfloat = Fin real | PosInf | NegInf | NaN

fun is_finite :: "pyfloat \<Rightarrow> bool" where
  "is_finite (Fin a) = True"
| "is_finite v = False"

definition round_half_even :: "real \<Rightarrow> int" where
  "round_half_even x =
     (let f = \<lfloor>x\<rfloor>; r = x - of_int f in
      if r < 1 / 2 then f else if r > 1 / 2 then f + 1 else if even f then f else f + 1)"

text \<open>
  \<open>bit_length n\<close> is \<open>n.bit_length()\<close> for \<open>n > 0\<close>; \<open>ilog2 x\<close> is the integer part
  of the binary logarithm of \<open>x > 0\<close>; \<open>ulp_exponent x\<close> is the exponent of the last
  mantissa bit of the binary64 values around \<open>x\<close>: 52 below the leading bit, and
  between -1074 (the subnormals) and 971 (the largest binade).
\<close>

function bit_length :: "int \<Rightarrow> int" where
  "bit_length n = (if n \<le> 0 then 0 else bit_length (n div 2) + 1)"
  by pat_completeness auto
termination
  by (relation "measure nat") auto

declare bit_length.simps [simp del]

definition ilog2 :: "real \<Rightarrow> int" where
  "ilog2 x = (if x \<ge> 1 then bit_length \<lfloor>x\<rfloor> - 1 else - bit_length (\<lceil>1 / x\<rceil> - 1))"

definition ulp_exponent :: "real \<Rightarrow> int" where
  "ulp_exponent x = max (- 1074) (min 971 (ilog2 \<bar>x\<bar> - 52))"

definition pow2 :: "int \<Rightarrow> real" where
  "pow2 e = (if e \<ge> 0 then 2 ^ nat e else 1 / 2 ^ nat (- e))"

definition round64 :: "real \<Rightarrow> real" where
  "round64 x =
     (if x = 0 then 0
      else (let e = ulp_exponent x in of_int (round_half_even (x / pow2 e)) * pow2 e))"

text \<open>
  The number 2 to the power 1024, written out: a rounded value of this magnitude or more
  is beyond the binary64 range. The largest finite value is \<open>max_float\<close>.
\<close>

definition float_limit :: real where
  "float_limit =
     179769313486231590772930519078902473361797697894230657273430081157732675805500963132708477322407536021120113879871393357658789768814416622492847430639474124377767893424865485276302219601246094119453082952085005768838150682342462881473913110540827237163350510684586298239947245938479716304835356329624224137216"

definition max_float :: real where
  "max_float = float_limit - 2 ^ 971"

definition to_float :: "real \<Rightarrow> pyfloat" where
  "to_float x =
     (let r = round64 x in
      if \<bar>r\<bar> \<ge> float_limit then (if r > 0 then PosInf else NegInf) else Fin r)"

text \<open>
  The comparisons \<open>a > b\<close> and \<open>a < b\<close>: false when an operand is NaN.
\<close>

fun f_lt :: "pyfloat \<Rightarrow> pyfloat \<Rightarrow> bool" where
  "f_lt NaN b = False"
| "f_lt a NaN = False"
| "f_lt (Fin a) (Fin b) = (a < b)"
| "f_lt (Fin a) PosInf = True"
| "f_lt (Fin a) NegInf = False"
| "f_lt PosInf b = False"
| "f_lt NegInf NegInf = False"
| "f_lt NegInf b = True"

definition f_gt :: "pyfloat \<Rightarrow> pyfloat \<Rightarrow> bool" where
  "f_gt a b = f_lt b a"

text \<open>
  The four operations of \<open>point_in_ring\<close>, with the IEEE rules for the infinities and
  NaN. On two finite operands they are exact here: what is proved of \<open>point_in_ring\<close>
  (it raises nothing, and \<open>find_bid\<close> takes the first boundary that passes it) rests
  on the guard in front of the division and not on the digits of the quotient.
  \<open>f_div\<close> raises ZeroDivisionError on a zero divisor, as Python's \<open>/\<close> does.
\<close>

fun f_neg :: "pyfloat \<Rightarrow> pyfloat" where
  "f_neg (Fin a) = Fin (- a)"
| "f_neg PosInf = NegInf"
| "f_neg NegInf = PosInf"
| "f_neg NaN = NaN"

fun f_add :: "pyfloat \<Rightarrow> pyfloat \<Rightarrow> pyfloat" where
  "f_add NaN b = NaN"
| "f_add a NaN = NaN"
| "f_add (Fin a) (Fin b) = Fin (a + b)"
| "f_add (Fin a) b = b"
| "f_add PosInf NegInf = NaN"
| "f_add NegInf PosInf = NaN"
| "f_add a b = a"

definition f_sub :: "pyfloat \<Rightarrow> pyfloat \<Rightarrow> pyfloat" where
  "f_sub a b = f_add a (f_neg b)"

text \<open>The sign of a value that is not NaN: -1, 0 or 1.\<close>

fun f_sign :: "pyfloat \<Rightarrow> int" where
  "f_sign (Fin a) = (if a < 0 then - 1 else if a = 0 then 0 else 1)"
| "f_sign PosInf = 1"
| "f_sign NegInf = - 1"
| "f_sign NaN = 0"

definition signed_inf :: "int \<Rightarrow> pyfloat" where
  "signed_inf s = (if s < 0 then NegInf else PosInf)"

fun f_mul :: "pyfloat \<Rightarrow> pyfloat \<Rightarrow> pyfloat" where
  "f_mul NaN b = NaN"
| "f_mul a NaN = NaN"
| "f_mul (Fin a) (Fin b) = Fin (a * b)"
| "f_mul a b = (if f_sign a * f_sign b = 0 then NaN else signed_inf (f_sign a * f_sign b))"

fun f_div :: "pyfloat \<Rightarrow> pyfloat \<Rightarrow> py_error + pyfloat" where
  "f_div a (Fin b) =
     (if b = 0 then Inl ZeroDivisionError
      else (case a of
              Fin x \<Rightarrow> Inr (Fin (x / b))
            | NaN \<Rightarrow> Inr NaN
            | v \<Rightarrow> Inr (signed_inf (f_sign v * f_sign (Fin b)))))"
| "f_div a NaN = Inr NaN"
| "f_div (Fin a) b = Inr (Fin 0)"
| "f_div a b = Inr NaN"

text \<open>
  The subtraction and the addition of \<open>bounding_box\<close>, rounded to binary64: there the
  digits are what the function returns.
\<close>

definition f_sub64 :: "pyfloat \<Rightarrow> pyfloat \<Rightarrow> pyfloat" where
  "f_sub64 a b = (case f_sub a b of Fin x \<Rightarrow> to_float x | v \<Rightarrow> v)"

definition f_add64 :: "pyfloat \<Rightarrow> pyfloat \<Rightarrow> pyfloat" where
  "f_add64 a b = (case f_add a b of Fin x \<Rightarrow> to_float x | v \<Rightarrow> v)"

type_synonym point = "pyfloat \<times> pyfloat"
type_synonym ring = "point list"
type_synonym boundaries = "(string \<times> ring list) list"

section \<open>Step C: point in polygon by ray casting (generate_deckgl_data.py)\<close>

text \<open>
  The condition of the \<open>if\<close> in the loop body of \<open>point_in_ring\<close>:
  \<^verbatim>\<open>((yi > lat) != (yj > lat)) and (lon < (xj - xi) * (lat - yi) / (yj - yi) + xi)\<close>.
  Python's \<open>and\<close> evaluates its right operand only when the left one is true.
\<close>

fun edge_crossed :: "pyfloat \<Rightarrow> pyfloat \<Rightarrow> point \<Rightarrow> point \<Rightarrow> py_error + bool" where
  "edge_crossed lon lat (xi, yi) (xj, yj) =
     (if f_gt yi lat \<noteq> f_gt yj lat
      then (case f_div (f_mul (f_sub xj xi) (f_sub lat yi)) (f_sub yj yi) of
              Inl e \<Rightarrow> Inl e
            | Inr q \<Rightarrow> Inr (f_lt lon (f_add q xi)))
      else Inr False)"

text \<open>
  The loop \<open>for i in range(n)\<close> with its two variables \<open>j\<close> and \<open>inside\<close>. Every
  index read is in range: \<open>i < n\<close>, and \<open>j\<close> is \<open>n - 1\<close> or an earlier \<open>i\<close>; for the
  empty ring the loop body never runs.
\<close>

fun ring_loop :: "pyfloat \<Rightarrow> pyfloat \<Rightarrow> ring \<Rightarrow> nat list \<Rightarrow> nat \<Rightarrow> bool \<Rightarrow> py_error + bool" where
  "ring_loop lon lat ring [] j inside = Inr inside"
| "ring_loop lon lat ring (i # is) j inside =
     (case edge_crossed lon lat (ring ! i) (ring ! j) of
        Inl e \<Rightarrow> Inl e
      | Inr c \<Rightarrow> ring_loop lon lat ring is i (if c then \<not> inside else inside))"

definition point_in_ring :: "pyfloat \<Rightarrow> pyfloat \<Rightarrow> ring \<Rightarrow> py_error + bool" where
  "point_in_ring lon lat ring =
     (let n = length ring in ring_loop lon lat ring [0..<n] (n - 1) False)"

text \<open>The inner loop of \<open>find_bid\<close> over the rings of one boundary.\<close>

fun rings_contain :: "pyfloat \<Rightarrow> pyfloat \<Rightarrow> ring list \<Rightarrow> py_error + bool" where
  "rings_contain lon lat [] = Inr False"
| "rings_contain lon lat (ring # rings) =
     (case point_in_ring lon lat ring of
        Inl e \<Rightarrow> Inl e
      | Inr True \<Rightarrow> Inr True
      | Inr False \<Rightarrow> rings_contain lon lat rings)"

fun find_bid :: "pyfloat \<Rightarrow> pyfloat \<Rightarrow> boundaries \<Rightarrow> py_error + string option" where
  "find_bid lon lat [] = Inr None"
| "find_bid lon lat ((name, rings) # rest) =
     (case rings_contain lon lat rings of
        Inl e \<Rightarrow> Inl e
      | Inr True \<Rightarrow> Inr (Some name)
      | Inr False \<Rightarrow> find_bid lon lat rest)"

text \<open>The ray-cast test as a predicate: the ring contains the point.\<close>

definition contains_point :: "pyfloat \<Rightarrow> pyfloat \<Rightarrow> ring \<Rightarrow> bool" where
  "contains_point lon lat ring = (point_in_ring lon lat ring = Inr True)"

definition boundary_contains :: "pyfloat \<Rightarrow> pyfloat \<Rightarrow> string \<times> ring list \<Rightarrow> bool" where
  "boundary_contains lon lat b = (\<exists>r \<in> set (snd b). contains_point lon lat r)"

definition horizontal_edge_at :: "pyfloat \<Rightarrow> ring \<Rightarrow> bool" where
  "horizontal_edge_at lat ring =
     (\<exists>i < length ring. snd (ring ! i) = lat \<and>
        snd (ring ! (if i = 0 then length ring - 1 else i - 1)) = lat)"

section \<open>Strings\<close>

text \<open>
  A Python \<open>str\<close> is modelled as a list of code points below 256. \<open>is_space\<close> is
  \<open>str.isspace\<close> on those code points (tab to carriage return, the four separators
  28 to 31, space, NEL and the no-break space); \<open>strip\<close>, \<open>split_ws\<close> and
  \<open>split_on\<close> are \<open>s.strip()\<close>, \<open>s.split()\<close> and \<open>s.split(sep)\<close> for a separator
  of one character.
\<close>

definition is_space :: "char \<Rightarrow> bool" where
  "is_space c = ((of_char c :: nat) \<in> {9, 10, 11, 12, 13, 28, 29, 30, 31, 32, 133, 160})"

definition strip :: "string \<Rightarrow> string" where
  "strip s = rev (dropWhile is_space (rev (dropWhile is_space s)))"

fun split_ws_from :: "string \<Rightarrow> string \<Rightarrow> string list" where
  "split_ws_from cur [] = (if cur = [] then [] else [cur])"
| "split_ws_from cur (c # cs) =
     (if is_space c then (if cur = [] then split_ws_from [] cs else cur # split_ws_from [] cs)
      else split_ws_from (cur @ [c]) cs)"

definition split_ws :: "string \<Rightarrow> string list" where
  "split_ws s = split_ws_from [] s"

fun split_on :: "char \<Rightarrow> string \<Rightarrow> string list" where
  "split_on sep [] = [[]]"
| "split_on sep (c # cs) =
     (if c = sep then [] # split_on sep cs
      else (case split_on sep cs of w # ws \<Rightarrow> (c # w) # ws | [] \<Rightarrow> [[c]]))"

text \<open>
  \<open>upper\<close> changes the letters a to z only. No other code point below 256 has an
  upper case that is a letter of MULTIPOLYGON, so the prefix test of the parser, the
  only use of \<open>upper\<close>, is the same as with Python's \<open>str.upper\<close>.
\<close>

definition to_upper :: "char \<Rightarrow> char" where
  "to_upper c = (let n = (of_char c :: nat) in if 97 \<le> n \<and> n \<le> 122 then char_of (n - 32) else c)"

definition upper :: "string \<Rightarrow> string" where
  "upper s = map to_upper s"

definition startswith :: "string \<Rightarrow> string \<Rightarrow> bool" where
  "startswith s p = (take (length p) s = p)"

definition endswith :: "string \<Rightarrow> string \<Rightarrow> bool" where
  "endswith s p = (length p \<le> length s \<and> drop (length s - length p) s = p)"

text \<open>The slice \<open>s[a:b]\<close> for indices that are not negative.\<close>

definition py_slice :: "nat \<Rightarrow> nat \<Rightarrow> 'a list \<Rightarrow> 'a list" where
  "py_slice a b s = take (b - a) (drop a s)"

section \<open>Reading floats\<close>

text \<open>
  The builtin \<open>float\<close> applied to a string is a parameter \<open>pf\<close> of every function that
  calls it: \<open>pf s = None\<close> when \<open>float(s)\<close> raises ValueError, \<open>Some v\<close> when it returns
  \<open>v\<close>, which may be an infinity or NaN. The theorems hold for every such reader. To
  evaluate examples there is \<open>decimal_float\<close>, the reader of plain decimal literals
  (surrounding whitespace, an optional sign, digits with an optional point), rounded
  to binary64, and of the words inf, infinity and nan in any letter case; the exponent
  and underscore forms that Python also accepts are not among the examples.
\<close>

type_synonym float_reader = "string \<Rightarrow> pyfloat option"

definition is_digit :: "char \<Rightarrow> bool" where
  "is_digit c = (48 \<le> (of_char c :: nat) \<and> (of_char c :: nat) \<le> 57)"

definition digits_value :: "string \<Rightarrow> int" where
  "digits_value ds = foldl (\<lambda>a c. 10 * a + (of_char c - 48)) 0 ds"

definition unsigned_decimal :: "string \<Rightarrow> real option" where
  "unsigned_decimal s =
     (let ip = takeWhile is_digit s; rest = dropWhile is_digit s in
      case rest of
        [] \<Rightarrow> (if ip = [] then None else Some (of_int (digits_value ip)))
      | c # fp \<Rightarrow>
          (if c = CHR ''.'' \<and> list_all is_digit fp \<and> (ip \<noteq> [] \<or> fp \<noteq> [])
           then Some (of_int (digits_value (ip @ fp)) / 10 ^ length fp)
           else None))"

definition unsigned_float :: "string \<Rightarrow> pyfloat option" where
  "unsigned_float s =
     (if upper s = ''INF'' \<or> upper s = ''INFINITY'' then Some PosInf
      else if upper s = ''NAN'' then Some NaN
      else map_option to_float (unsigned_decimal s))"

definition decimal_float :: float_reader where
  "decimal_float s =
     (case strip s of
        [] \<Rightarrow> None
      | c # cs \<Rightarrow>
          (if c = CHR ''-'' then map_option f_neg (unsigned_float cs)
           else if c = CHR ''+'' then unsigned_float cs
           else unsigned_float (c # cs)))"

section \<open>Step A: the WKT parser (generate_deckgl_data.py)\<close>

text \<open>Lines 105 to 110: the MULTIPOLYGON keyword and the outermost parentheses.\<close>

definition strip_wrapper :: "string \<Rightarrow> string" where
  "strip_wrapper wkt =
     (let inner = strip wkt;
          inner = (if startswith (upper inner) ''MULTIPOLYGON''
                   then strip (drop (length ''MULTIPOLYGON'') inner) else inner);
          inner = (if startswith inner ''('' \<and> endswith inner '')''
                   then strip (butlast (tl inner)) else inner)
      in inner)"

text \<open>
  Lines 115 to 127: the scan for top-level groups. The arguments are the whole text
  (for the slice), the index \<open>i\<close>, the characters from \<open>i\<close> on, and the loop variables
  \<open>depth\<close>, \<open>start\<close> and \<open>polygons\<close>. \<open>depth\<close> is an integer: an unmatched closing
  parenthesis makes it negative.
\<close>

fun split_polygons ::
  "string \<Rightarrow> nat \<Rightarrow> string \<Rightarrow> int \<Rightarrow> nat option \<Rightarrow> string list \<Rightarrow> string list" where
  "split_polygons inner i [] depth start polygons = polygons"
| "split_polygons inner i (ch # rest) depth start polygons =
     (if ch = CHR ''('' then
        split_polygons inner (i + 1) rest (depth + 1) (if depth = 0 then Some i else start) polygons
      else if ch = CHR '')'' then
        (case (if depth - 1 = 0 then start else None) of
           Some st \<Rightarrow>
             split_polygons inner (i + 1) rest (depth - 1) None
               (polygons @ [py_slice st (i + 1) inner])
         | None \<Rightarrow> split_polygons inner (i + 1) rest (depth - 1) start polygons)
      else split_polygons inner (i + 1) rest depth start polygons)"

text \<open>Lines 132 to 136: the outer parentheses of one polygon block.\<close>

definition strip_block :: "string \<Rightarrow> string" where
  "strip_block poly_block =
     (let b = strip poly_block;
          b = (if startswith b ''('' then drop 1 b else b);
          b = (if endswith b '')'' then butlast b else b)
      in b)"

text \<open>
  Lines 139 to 149 and the \<open>break\<close> of line 157: the scan of a polygon block up to the
  end of its first ring. The result is \<open>ring_str\<close>, or \<open>None\<close> when the loop ends
  without reaching line 149.
\<close>

fun first_ring :: "string \<Rightarrow> nat \<Rightarrow> string \<Rightarrow> int \<Rightarrow> nat option \<Rightarrow> string option" where
  "first_ring poly_block i [] ring_depth ring_start = None"
| "first_ring poly_block i (ch # rest) ring_depth ring_start =
     (if ch = CHR ''('' then
        first_ring poly_block (i + 1) rest (ring_depth + 1)
          (if ring_depth = 0 then Some i else ring_start)
      else if ch = CHR '')'' then
        (case (if ring_depth - 1 = 0 then ring_start else None) of
           Some rs \<Rightarrow> Some (py_slice (rs + 1) i poly_block)
         | None \<Rightarrow> first_ring poly_block (i + 1) rest (ring_depth - 1) ring_start)
      else first_ring poly_block (i + 1) rest ring_depth ring_start)"

text \<open>
  Lines 150 to 154: the pairs of one ring. \<open>float\<close> is applied to the first two parts
  of a pair with no handler around it, so a part it cannot read ends the parse with
  ValueError.
\<close>

fun ring_coords :: "float_reader \<Rightarrow> string list \<Rightarrow> ring \<Rightarrow> py_error + ring" where
  "ring_coords pf [] coords = Inr coords"
| "ring_coords pf (pair # pairs) coords =
     (let parts = split_ws (strip pair) in
      if length parts \<ge> 2 then
        (case pf (parts ! 0) of
           None \<Rightarrow> Inl ValueError
         | Some x \<Rightarrow>
             (case pf (parts ! 1) of
                None \<Rightarrow> Inl ValueError
              | Some y \<Rightarrow> ring_coords pf pairs (coords @ [(x, y)])))
      else ring_coords pf pairs coords)"

text \<open>Lines 129 to 158: the loop over the polygon blocks.\<close>

fun exterior_rings :: "float_reader \<Rightarrow> string list \<Rightarrow> ring list \<Rightarrow> py_error + ring list" where
  "exterior_rings pf [] result = Inr result"
| "exterior_rings pf (poly_block # polygons) result =
     (let pb = strip_block poly_block in
      case first_ring pb 0 pb 0 None of
        None \<Rightarrow> exterior_rings pf polygons result
      | Some ring_str \<Rightarrow>
          (case ring_coords pf (split_on CHR '','' ring_str) [] of
             Inl e \<Rightarrow> Inl e
           | Inr coords \<Rightarrow>
               exterior_rings pf polygons (if coords \<noteq> [] then result @ [coords] else result)))"

definition parse_wkt_multipolygon :: "float_reader \<Rightarrow> string \<Rightarrow> py_error + ring list" where
  "parse_wkt_multipolygon pf wkt =
     (let inner = strip_wrapper wkt;
          polygons = split_polygons inner 0 inner 0 None []
      in exterior_rings pf polygons [])"

section \<open>Configuration (generate_deckgl_data.py)\<close>

definition PAGE_SIZE :: nat where
  "PAGE_SIZE = 50000"

definition BROOKLYN_BIDS :: "string list" where
  "BROOKLYN_BIDS =
    [
     ''86th Street Bay Ridge'',
     ''Atlantic Avenue'',
     ''Bay Ridge 5th Avenue'',
     ''Bed-Stuy Gateway'',
     ''Brighton Beach'',
     ''Church Flatbush Community Alliance'',
     ''Court-Livingston-Schermerhorn'',
     ''Cypress Hills Fulton'',
     ''DUMBO'',
     ''East Brooklyn'',
     ''Flatbush-Nostrand Junction'',
     ''Fulton Area Business (FAB) Alliance'',
     ''Fulton Mall Improvement Association'',
     ''Gowanus BID (Proposed)'',
     ''Graham Avenue'',
     ''Grand Street'',
     ''Kings Highway'',
     ''MetroTech'',
     ''Montague Street'',
     ''Myrtle Avenue Brooklyn Partnership'',
     ''North Flatbush'',
     ''Park Slope 5th Avenue'',
     ''Pitkin Avenue'',
     ''Sunset Park''
    ]"

definition BID_COLORS :: "(string \<times> nat list) list" where
  "BID_COLORS = map (\<lambda>name. (name, [128, 128, 128])) BROOKLYN_BIDS"

text \<open>
  The literals of \<open>GOWANUS_BOUNDARY\<close> as written in the source; the constant holds
  the binary64 value of each.
\<close>

definition GOWANUS_LITERALS :: "(real \<times> real) list" where
  "GOWANUS_LITERALS = [
    (- 73.98871236113611, 40.6852235692749),
    (- 73.98656632686861, 40.684387901353176),
    (- 73.98699969227908, 40.683765500363144),
    (- 73.98645689115888, 40.68355803207488),
    (- 73.98666481900734, 40.68325429733605),
    (- 73.98500577364807, 40.68259869031278),
    (- 73.98436666910332, 40.6835430943332),
    (- 73.9820772740561, 40.68265014324907),
    (- 73.98185949699375, 40.6829862461299),
    (- 73.97982727586435, 40.68216797788509),
    (- 73.98387639712381, 40.67614435139574),
    (- 73.98570616219023, 40.67397312303486),
    (- 73.98800431209425, 40.67508032553716),
    (- 73.98874190877774, 40.674180621155706),
    (- 73.9903232547831, 40.674983217807416),
    (- 73.99044582277797, 40.67536168816061),
    (- 73.99097986904138, 40.67549199434205),
    (- 73.99192101614494, 40.674349109154754),
    (- 73.99482325116658, 40.67583311313964),
    (- 73.99534854257324, 40.675454645462594),
    (- 73.99649542881106, 40.67406691226546),
    (- 73.99776488304373, 40.674704343540796),
    (- 73.99649105138268, 40.67744655650161),
    (- 73.99458577567648, 40.67657344282233),
    (- 73.9937551586398, 40.67783165243714),
    (- 73.991865203933, 40.67694775436462),
    (- 73.99042393563609, 40.67867819171676),
    (- 73.98827461829725, 40.68186174712512),
    (- 73.99042393563607, 40.68269744671996),
    (- 73.98871236113611, 40.6852235692749)
  ]"

definition GOWANUS_BOUNDARY :: ring where
  "GOWANUS_BOUNDARY = map (\<lambda>(lon, lat). (to_float lon, to_float lat)) GOWANUS_LITERALS"

section \<open>Step A: loading the boundaries\<close>

text \<open>
  A row of \<open>csv.DictReader\<close> maps a column name to the text of its cell, or to \<open>None\<close>
  for a cell that a short line leaves out. \<open>csv_get row k\<close> is \<open>row.get(k, "")\<close>.
  Calling \<open>strip\<close> on \<open>None\<close> raises AttributeError, in \<open>load_bid_boundaries\<close> for
  the name and in the first line of the parser for the geometry.
\<close>

type_synonym csv_row = "(string \<times> string option) list"

definition csv_get :: "csv_row \<Rightarrow> string \<Rightarrow> string option" where
  "csv_get row k = (case map_of row k of None \<Rightarrow> Some [] | Some cell \<Rightarrow> cell)"

fun load_rows ::
  "float_reader \<Rightarrow> string list \<Rightarrow> csv_row list \<Rightarrow> boundaries \<Rightarrow> py_error + boundaries" where
  "load_rows pf bid_names [] boundaries = Inr boundaries"
| "load_rows pf bid_names (row # rows) boundaries =
     (case csv_get row ''F_ALL_BI_2'' of
        None \<Rightarrow> Inl AttributeError
      | Some cell \<Rightarrow>
          (let name = strip cell in
           if name \<in> set bid_names then
             (case csv_get row ''the_geom'' of
                None \<Rightarrow> Inl AttributeError
              | Some wkt \<Rightarrow>
                  (case parse_wkt_multipolygon pf wkt of
                     Inl e \<Rightarrow> Inl e
                   | Inr rings \<Rightarrow>
                       load_rows pf bid_names rows
                         (if rings \<noteq> [] then dict_set name rings boundaries else boundaries)))
           else load_rows pf bid_names rows boundaries))"

definition load_bid_boundaries ::
  "float_reader \<Rightarrow> csv_row list \<Rightarrow> string list \<Rightarrow> py_error + boundaries" where
  "load_bid_boundaries pf csv_rows bid_names = load_rows pf bid_names csv_rows []"

section \<open>Step A: the bounding box\<close>

text \<open>
  The four accumulators of \<open>bounding_box\<close> start at \<open>float("inf")\<close> and
  \<open>float("-inf")\<close>. \<open>py_min a x\<close> is \<open>min(a, x)\<close> and \<open>py_max a x\<close> is
  \<open>max(a, x)\<close>: the builtin keeps its first argument unless the second is smaller
  (larger), so a NaN coordinate leaves the accumulator as it is. The buffer is the
  literal 0.002; subtracting and adding it rounds to binary64.
\<close>

type_synonym bbox = "pyfloat \<times> pyfloat \<times> pyfloat \<times> pyfloat"

definition py_min :: "pyfloat \<Rightarrow> pyfloat \<Rightarrow> pyfloat" where
  "py_min a x = (if f_lt x a then x else a)"

definition py_max :: "pyfloat \<Rightarrow> pyfloat \<Rightarrow> pyfloat" where
  "py_max a x = (if f_gt x a then x else a)"

text \<open>The body of the innermost loop; the state is (min_lon, max_lon, min_lat, max_lat).\<close>

fun bbox_step :: "bbox \<Rightarrow> point \<Rightarrow> bbox" where
  "bbox_step (min_lon, max_lon, min_lat, max_lat) (lon, lat) =
     (py_min min_lon lon, py_max max_lon lon, py_min min_lat lat, py_max max_lat lat)"

definition bounding_box :: "boundaries \<Rightarrow> bbox" where
  "bounding_box boundaries =
     (let (min_lon, max_lon, min_lat, max_lat) =
            foldl (\<lambda>acc rings. foldl (\<lambda>acc ring. foldl bbox_step acc ring) acc rings)
              (PosInf, NegInf, PosInf, NegInf) (map snd boundaries);
          buf = to_float 0.002
      in (f_sub64 min_lon buf, f_sub64 min_lat buf, f_add64 max_lon buf, f_add64 max_lat buf))"

text \<open>Every coordinate of every ring of a mapping, in iteration order.\<close>

definition all_coords :: "boundaries \<Rightarrow> point list" where
  "all_coords boundaries = concat (concat (map snd boundaries))"

section \<open>Step B: the paginated fetch\<close>

text \<open>
  A fetched row is a JSON object; a JSON number is an \<open>int\<close> when it is written
  without point and exponent, a float otherwise, as \<open>json\<close> decodes it. The
  request of one page (\<open>requests.get\<close>,
  \<open>raise_for_status\<close> and \<open>resp.json()\<close>) is a parameter \<open>api\<close>: given the limit and
  the offset it returns the rows of the page or fails. The loop may run forever (a
  server that always returns full pages), so it is a partial function: \<open>None\<close> is
  not returning. Besides \<open>all_rows\<close> the model returns the offsets requested, one for
  each line \<open>Fetching PLUTO offset=...\<close> the source prints.
\<close>

datatype json = JNull | JBool bool | JInt int | JFloat pyfloat | JStr string
  | JArr "json list" | JObj "(string \<times> json) list"

type_synonym row = "(string \<times> json) list"

partial_function (option) fetch_loop ::
  "(nat \<Rightarrow> nat \<Rightarrow> py_error + 'r list) \<Rightarrow> nat \<Rightarrow> nat \<Rightarrow> 'r list \<Rightarrow> nat list
     \<Rightarrow> (py_error + 'r list \<times> nat list) option" where
  "fetch_loop api page_size offset all_rows requests =
     (case api page_size offset of
        Inl e \<Rightarrow> Some (Inl e)
      | Inr batch \<Rightarrow>
          if batch = [] then Some (Inr (all_rows, requests @ [offset]))
          else if length batch < page_size then Some (Inr (all_rows @ batch, requests @ [offset]))
          else fetch_loop api page_size (offset + page_size) (all_rows @ batch)
                 (requests @ [offset]))"

definition fetch_pluto ::
  "(bbox \<Rightarrow> nat \<Rightarrow> nat \<Rightarrow> py_error + 'r list) \<Rightarrow> bbox
     \<Rightarrow> (py_error + 'r list \<times> nat list) option" where
  "fetch_pluto api bbox = fetch_loop (api bbox) PAGE_SIZE 0 [] []"

text \<open>
  A server that holds a finite table \<open>source\<close> of the rows that match the query, in
  the order of the sort column, and answers a request with the page at that offset.
\<close>

definition table_server :: "'r list \<Rightarrow> nat \<Rightarrow> nat \<Rightarrow> py_error + 'r list" where
  "table_server source limit offset = Inr (take limit (drop offset source))"

text \<open>
  The pages of one run from an offset on: every page before the last is full (not
  empty and not shorter than the page size), the last one is empty or short.
\<close>

inductive fetch_run :: "(nat \<Rightarrow> nat \<Rightarrow> py_error + 'r list) \<Rightarrow> nat \<Rightarrow> nat \<Rightarrow> 'r list list \<Rightarrow> bool" where
  last_page: "api ps off = Inr batch \<Longrightarrow> batch = [] \<or> length batch < ps \<Longrightarrow>
     fetch_run api ps off [batch]"
| full_page: "api ps off = Inr batch \<Longrightarrow> batch \<noteq> [] \<Longrightarrow> \<not> length batch < ps \<Longrightarrow>
     fetch_run api ps (off + ps) pages \<Longrightarrow> fetch_run api ps off (batch # pages)"

section \<open>Step C: the parcel loop of main\<close>

text \<open>
  \<open>row_get row k d\<close> is \<open>row.get(k, d)\<close>. \<open>py_float_of\<close> is the builtin \<open>float\<close> on a
  JSON value: a string is read by \<open>pf\<close> (ValueError when it cannot be read), a float
  or a boolean converts, an integer converts unless it is beyond the binary64 range
  (OverflowError), anything else raises TypeError. \<open>py_or v d\<close> is \<open>v or d\<close>.
\<close>

definition row_get :: "row \<Rightarrow> string \<Rightarrow> json \<Rightarrow> json" where
  "row_get row k d = (case map_of row k of None \<Rightarrow> d | Some v \<Rightarrow> v)"

fun py_float_of :: "float_reader \<Rightarrow> json \<Rightarrow> py_error + pyfloat" where
  "py_float_of pf JNull = Inl TypeError"
| "py_float_of pf (JBool b) = Inr (Fin (if b then 1 else 0))"
| "py_float_of pf (JInt n) =
     (case to_float (of_int n) of Fin x \<Rightarrow> Inr (Fin x) | v \<Rightarrow> Inl OverflowError)"
| "py_float_of pf (JFloat v) = Inr v"
| "py_float_of pf (JStr s) = (case pf s of None \<Rightarrow> Inl ValueError | Some v \<Rightarrow> Inr v)"
| "py_float_of pf (JArr vs) = Inl TypeError"
| "py_float_of pf (JObj kvs) = Inl TypeError"

fun truthy :: "json \<Rightarrow> bool" where
  "truthy JNull = False"
| "truthy (JBool b) = b"
| "truthy (JInt n) = (n \<noteq> 0)"
| "truthy (JFloat v) = (v \<noteq> Fin 0)"
| "truthy (JStr s) = (s \<noteq> [])"
| "truthy (JArr vs) = (vs \<noteq> [])"
| "truthy (JObj kvs) = (kvs \<noteq> [])"

definition py_or :: "json \<Rightarrow> json \<Rightarrow> json" where
  "py_or v d = (if truthy v then v else d)"

text \<open>
  \<open>int(x)\<close> on a float truncates toward zero; it raises OverflowError on an infinity
  and ValueError on NaN.
\<close>

fun py_int :: "pyfloat \<Rightarrow> py_error + int" where
  "py_int (Fin x) = Inr (if x \<ge> 0 then \<lfloor>x\<rfloor> else \<lceil>x\<rceil>)"
| "py_int NaN = Inl ValueError"
| "py_int v = Inl OverflowError"

text \<open>The errors that \<open>except (ValueError, TypeError)\<close> catches; any other goes on.\<close>

definition caught :: "py_error \<Rightarrow> bool" where
  "caught e = (e = ValueError \<or> e = TypeError)"

text \<open>
  Lines 300 to 306: the two coordinates of a row. \<open>Inr None\<close> is either \<open>continue\<close>
  (the handler of the \<open>try\<close> around both conversions, or the test for zero);
  \<open>Inr (Some (lon, lat))\<close> is a row that goes on to \<open>find_bid\<close>; \<open>Inl e\<close> is an error
  the handler does not catch, which ends the run.
\<close>

definition row_coords :: "float_reader \<Rightarrow> row \<Rightarrow> py_error + point option" where
  "row_coords pf row =
     (case py_float_of pf (row_get row ''longitude'' (JInt 0)) of
        Inl e \<Rightarrow> if caught e then Inr None else Inl e
      | Inr lon \<Rightarrow>
          (case py_float_of pf (row_get row ''latitude'' (JInt 0)) of
             Inl e \<Rightarrow> if caught e then Inr None else Inl e
           | Inr lat \<Rightarrow> if lon = Fin 0 \<or> lat = Fin 0 then Inr None else Inr (Some (lon, lat))))"

text \<open>
  Lines 312 to 340: a numeric field, with the default 0 when the conversion raises
  ValueError or TypeError; for \<open>yearbuilt\<close> the conversion is \<open>int(float(...))\<close>.
\<close>

definition float_field :: "float_reader \<Rightarrow> row \<Rightarrow> string \<Rightarrow> py_error + pyfloat" where
  "float_field pf row k =
     (case py_float_of pf (py_or (row_get row k (JInt 0)) (JInt 0)) of
        Inl e \<Rightarrow> if caught e then Inr (Fin 0) else Inl e
      | Inr x \<Rightarrow> Inr x)"

definition int_field :: "float_reader \<Rightarrow> row \<Rightarrow> string \<Rightarrow> py_error + int" where
  "int_field pf row k =
     (case py_float_of pf (py_or (row_get row k (JInt 0)) (JInt 0)) of
        Inl e \<Rightarrow> if caught e then Inr 0 else Inl e
      | Inr x \<Rightarrow>
          (case py_int x of
             Inl e \<Rightarrow> if caught e then Inr 0 else Inl e
           | Inr n \<Rightarrow> Inr n))"

definition bid_color :: "string \<Rightarrow> nat list" where
  "bid_color name = (case map_of BID_COLORS name of None \<Rightarrow> [128, 128, 128] | Some c \<Rightarrow> c)"

record parcel =
  p_lat :: pyfloat
  p_lon :: pyfloat
  p_assesstot :: pyfloat
  p_assessland :: pyfloat
  p_address :: json
  p_bbl :: json
  p_bid_name :: "string option"
  p_bldgclass :: json
  p_landuse :: json
  p_yearbuilt :: int
  p_numfloors :: pyfloat
  p_lotarea :: pyfloat
  p_color :: "nat list"

text \<open>
  Lines 312 to 356: the numeric fields in the order the source converts them, then the
  record appended for a classified row.
\<close>

definition make_parcel ::
  "float_reader \<Rightarrow> row \<Rightarrow> pyfloat \<Rightarrow> pyfloat \<Rightarrow> string option \<Rightarrow> py_error + parcel" where
  "make_parcel pf row lon lat bid_name =
     (case float_field pf row ''assesstot'' of
        Inl e \<Rightarrow> Inl e
      | Inr assesstot \<Rightarrow>
     (case float_field pf row ''assessland'' of
        Inl e \<Rightarrow> Inl e
      | Inr assessland \<Rightarrow>
     (case float_field pf row ''numfloors'' of
        Inl e \<Rightarrow> Inl e
      | Inr numfloors \<Rightarrow>
     (case int_field pf row ''yearbuilt'' of
        Inl e \<Rightarrow> Inl e
      | Inr yearbuilt \<Rightarrow>
     (case float_field pf row ''lotarea'' of
        Inl e \<Rightarrow> Inl e
      | Inr lotarea \<Rightarrow>
          Inr \<lparr> p_lat = lat,
                p_lon = lon,
                p_assesstot = assesstot,
                p_assessland = assessland,
                p_address = row_get row ''address'' (JStr []),
                p_bbl = row_get row ''bbl'' (JStr []),
                p_bid_name = bid_name,
                p_bldgclass = row_get row ''bldgclass'' (JStr []),
                p_landuse = row_get row ''landuse'' (JStr []),
                p_yearbuilt = yearbuilt,
                p_numfloors = numfloors,
                p_lotarea = lotarea,
                p_color = (case bid_name of None \<Rightarrow> [128, 128, 128]
                           | Some n \<Rightarrow> bid_color n) \<rparr>)))))"

text \<open>
  Lines 299 to 357: the loop over the fetched rows, with the list \<open>parcels\<close> it
  appends to. \<open>bid_name\<close> is kept as the optional value \<open>find_bid\<close> returned, so that
  its being set in every parcel is a property of the loop and not of the type.
\<close>

fun spatial_filter ::
  "float_reader \<Rightarrow> boundaries \<Rightarrow> row list \<Rightarrow> parcel list \<Rightarrow> py_error + parcel list" where
  "spatial_filter pf boundaries [] parcels = Inr parcels"
| "spatial_filter pf boundaries (row # raw_lots) parcels =
     (case row_coords pf row of
        Inl e \<Rightarrow> Inl e
      | Inr None \<Rightarrow> spatial_filter pf boundaries raw_lots parcels
      | Inr (Some (lon, lat)) \<Rightarrow>
          (case find_bid lon lat boundaries of
             Inl e \<Rightarrow> Inl e
           | Inr bid_name \<Rightarrow>
               if bid_name = None then spatial_filter pf boundaries raw_lots parcels
               else (case make_parcel pf row lon lat bid_name of
                       Inl e \<Rightarrow> Inl e
                     | Inr p \<Rightarrow> spatial_filter pf boundaries raw_lots (parcels @ [p]))))"

section \<open>Step D: the export\<close>

record feature =
  f_name :: string
  f_color :: "nat list"
  f_coordinates :: "pyfloat list list list list"

definition build_geojson_boundaries :: "boundaries \<Rightarrow> feature list" where
  "build_geojson_boundaries boundaries =
     map (\<lambda>(name, rings).
            \<lparr> f_name = name,
              f_color = bid_color name,
              f_coordinates = map (\<lambda>ring. [map (\<lambda>(lon, lat). [lon, lat]) ring]) rings \<rparr>)
       boundaries"

record document =
  d_parcels :: "parcel list"
  d_bid_boundaries :: "feature list"

text \<open>
  \<open>main\<close>, from the rows of the CSV file and the server to the document it writes.
  \<open>None\<close> is a fetch that never ends; an error of a stage ends the run.
\<close>

definition main ::
  "float_reader \<Rightarrow> csv_row list \<Rightarrow> (bbox \<Rightarrow> nat \<Rightarrow> nat \<Rightarrow> py_error + row list)
     \<Rightarrow> (py_error + document) option" where
  "main pf csv_rows api =
     (case load_bid_boundaries pf csv_rows BROOKLYN_BIDS of
        Inl e \<Rightarrow> Some (Inl e)
      | Inr loaded \<Rightarrow>
          (let boundaries = dict_set ''Gowanus BID (Proposed)'' [GOWANUS_BOUNDARY] loaded;
               bbox = bounding_box boundaries
           in case fetch_pluto api bbox of
                None \<Rightarrow> None
              | Some (Inl e) \<Rightarrow> Some (Inl e)
              | Some (Inr (raw_lots, requests)) \<Rightarrow>
                  (case spatial_filter pf boundaries raw_lots [] of
                     Inl e \<Rightarrow> Some (Inl e)
                   | Inr ps \<Rightarrow>
                       Some (Inr \<lparr> d_parcels = ps,
                                   d_bid_boundaries = build_geojson_boundaries boundaries \<rparr>))))"

section \<open>The currency formatter (generate_brooklyn_bids_table.py)\<close>

text \<open>
  \<open>val\<close> is a float of a pandas column, or missing (\<open>pd.isna\<close>): \<open>None\<close> here.
  \<open>format_fixed d x\<close> is the format \<open>f"{x:.{d}f}"\<close>: the sign, then the value
  rounded to \<open>d\<close> decimals by \<open>round_half_even\<close>, a tie going to the even digit,
  as Python's float formatting
  does on the exact value of the float. The quotients \<open>val / 1000000\<close> and
  \<open>val / 1000\<close> are taken exactly; the model is the code wherever the binary quotient
  is exact (1.5 and 2.5 are) and in the last branch, which does not divide.
\<close>

text \<open>The decimal digits of an integer that is not negative.\<close>

definition digit_char :: "int \<Rightarrow> char" where
  "digit_char d = char_of (48 + d)"

function str_int :: "int \<Rightarrow> string" where
  "str_int n = (if n < 10 then [digit_char n] else str_int (n div 10) @ [digit_char (n mod 10)])"
  by pat_completeness auto
termination
  by (relation "measure nat") auto

declare str_int.simps [simp del]

definition zero_pad :: "nat \<Rightarrow> string \<Rightarrow> string" where
  "zero_pad d s = replicate (d - length s) CHR ''0'' @ s"

definition format_fixed :: "nat \<Rightarrow> real \<Rightarrow> string" where
  "format_fixed d x =
     (let n = round_half_even (\<bar>x\<bar> * 10 ^ d);
          ip = n div 10 ^ d;
          fp = n mod 10 ^ d
      in (if x < 0 then ''-'' else []) @ str_int ip @
         (if d = 0 then [] else ''.'' @ zero_pad d (str_int fp)))"

text \<open>The em dash U+2014 that the formatter returns, as its three UTF-8 bytes.\<close>

definition em_dash :: string where
  "em_dash = [char_of (226 :: nat), char_of (128 :: nat), char_of (148 :: nat)]"

definition format_currency :: "real option \<Rightarrow> string" where
  "format_currency val =
     (case val of
        None \<Rightarrow> em_dash
      | Some v \<Rightarrow>
          if v = 0 then em_dash
          else if v \<ge> 1000000 then ''$'' @ format_fixed 1 (v / 1000000) @ ''M''
          else if v \<ge> 1000 then ''$'' @ format_fixed 0 (v / 1000) @ ''K''
          else ''$'' @ format_fixed 0 v)"

section \<open>Predicates and examples used in the statements\<close>

text \<open>
  A coordinate field on which \<open>float\<close> raises ValueError or TypeError, the two errors
  the handler of the loop catches.
\<close>

definition unparseable :: "float_reader \<Rightarrow> json \<Rightarrow> bool" where
  "unparseable pf v = (case py_float_of pf v of Inl e \<Rightarrow> caught e | Inr x \<Rightarrow> False)"

text \<open>
  A parcel carries a BID name, and it is the one \<open>find_bid\<close> gives for the parcel's
  own coordinates.
\<close>

definition assigned :: "boundaries \<Rightarrow> parcel \<Rightarrow> bool" where
  "assigned bs p =
     (\<exists>n. p_bid_name p = Some n \<and> find_bid (p_lon p) (p_lat p) bs = Inr (Some n))"

text \<open>
  A finite float, that is a number of magnitude at most \<open>max_float\<close>; a mapping all of
  whose coordinates are finite; and the longitudes and latitudes of such a mapping as
  sets of numbers.
\<close>

fun finite_float :: "pyfloat \<Rightarrow> bool" where
  "finite_float (Fin x) = (\<bar>x\<bar> \<le> max_float)"
| "finite_float v = False"

fun fin_value :: "pyfloat \<Rightarrow> real" where
  "fin_value (Fin x) = x"
| "fin_value v = 0"

definition fin_points :: "point list \<Rightarrow> bool" where
  "fin_points cs = list_all (\<lambda>(lon, lat). is_finite lon \<and> is_finite lat) cs"

definition coords_finite :: "boundaries \<Rightarrow> bool" where
  "coords_finite bs = list_all (\<lambda>(lon, lat). finite_float lon \<and> finite_float lat) (all_coords bs)"

definition lons :: "boundaries \<Rightarrow> real set" where
  "lons bs = (fin_value \<circ> fst) ` set (all_coords bs)"

definition lats :: "boundaries \<Rightarrow> real set" where
  "lats bs = (fin_value \<circ> snd) ` set (all_coords bs)"

text \<open>
  A well-formed two-dimensional WKT multipolygon text, given by its parts: the keyword
  in any letter case, then in parentheses the polygon parts separated by commas, each
  part a parenthesised list of rings separated by commas, each ring a parenthesised
  list of points separated by commas, each point two number tokens separated by
  whitespace. Whitespace may stand around the keyword and around every part, ring and
  point: a \<open>padded\<close> item carries the whitespace before and after it. Every part has
  at least one ring and every ring at least one point; a token is not empty, has no
  whitespace, parenthesis or comma in it, and is one \<open>float\<close> reads.
\<close>

datatype wkt_point = WktPoint string string string

type_synonym 'a padded = "string \<times> 'a \<times> string"

type_synonym wkt_ring = "wkt_point padded list"

type_synonym wkt_polygon = "wkt_ring padded list"

datatype wkt_text = WktText string string string "wkt_polygon padded list" string

fun join_commas :: "string list \<Rightarrow> string" where
  "join_commas [] = []"
| "join_commas [x] = x"
| "join_commas (x # y # ys) = x @ '','' @ join_commas (y # ys)"

fun pad :: "('a \<Rightarrow> string) \<Rightarrow> 'a padded \<Rightarrow> string" where
  "pad f (a, v, b) = a @ f v @ b"

fun render_point :: "wkt_point \<Rightarrow> string" where
  "render_point (WktPoint x m y) = x @ m @ y"

definition render_ring :: "wkt_ring \<Rightarrow> string" where
  "render_ring r = ''('' @ join_commas (map (pad render_point) r) @ '')''"

definition render_polygon :: "wkt_polygon \<Rightarrow> string" where
  "render_polygon p = ''('' @ join_commas (map (pad render_ring) p) @ '')''"

fun render_wkt :: "wkt_text \<Rightarrow> string" where
  "render_wkt (WktText lead kw gap polys trail) =
     lead @ kw @ gap @ ''('' @ join_commas (map (pad render_polygon) polys) @ '')'' @ trail"

definition ws_ok :: "string \<Rightarrow> bool" where
  "ws_ok s = list_all is_space s"

definition is_delim :: "char \<Rightarrow> bool" where
  "is_delim c = (c = CHR ''('' \<or> c = CHR '')'' \<or> c = CHR '','')"

definition token_ok :: "float_reader \<Rightarrow> string \<Rightarrow> bool" where
  "token_ok pf t = (t \<noteq> [] \<and> list_all (\<lambda>c. \<not> is_space c \<and> \<not> is_delim c) t \<and> pf t \<noteq> None)"

fun point_ok :: "float_reader \<Rightarrow> wkt_point \<Rightarrow> bool" where
  "point_ok pf (WktPoint x m y) = (token_ok pf x \<and> m \<noteq> [] \<and> ws_ok m \<and> token_ok pf y)"

fun padded_ok :: "('a \<Rightarrow> bool) \<Rightarrow> 'a padded \<Rightarrow> bool" where
  "padded_ok ok (a, v, b) = (ws_ok a \<and> ok v \<and> ws_ok b)"

definition ring_ok :: "float_reader \<Rightarrow> wkt_ring \<Rightarrow> bool" where
  "ring_ok pf r = (r \<noteq> [] \<and> list_all (padded_ok (point_ok pf)) r)"

definition polygon_ok :: "float_reader \<Rightarrow> wkt_polygon \<Rightarrow> bool" where
  "polygon_ok pf p = (p \<noteq> [] \<and> list_all (padded_ok (ring_ok pf)) p)"

fun wkt_ok :: "float_reader \<Rightarrow> wkt_text \<Rightarrow> bool" where
  "wkt_ok pf (WktText lead kw gap polys trail) =
     (ws_ok lead \<and> upper kw = ''MULTIPOLYGON'' \<and> ws_ok gap \<and> polys \<noteq> [] \<and>
      list_all (padded_ok (polygon_ok pf)) polys \<and> ws_ok trail)"

text \<open>The coordinates a text spells: for every part those of its first ring, in order.\<close>

fun point_value :: "float_reader \<Rightarrow> wkt_point padded \<Rightarrow> point" where
  "point_value pf (a, WktPoint x m y, b) = (the (pf x), the (pf y))"

fun exterior_of :: "float_reader \<Rightarrow> wkt_polygon padded \<Rightarrow> ring" where
  "exterior_of pf (a, p, b) = map (point_value pf) (fst (snd (hd p)))"

fun wkt_parts :: "wkt_text \<Rightarrow> wkt_polygon padded list" where
  "wkt_parts (WktText lead kw gap polys trail) = polys"

text \<open>
  A pair text whose first two parts, when it has two, are tokens \<open>float\<close> reads; and
  the ring texts the parser reaches: for every polygon block the text of its first
  ring, when the scan finds one.
\<close>

definition readable :: "float_reader \<Rightarrow> string \<Rightarrow> bool" where
  "readable pf pair =
     (let parts = split_ws (strip pair) in
      length parts \<ge> 2 \<longrightarrow> pf (parts ! 0) \<noteq> None \<and> pf (parts ! 1) \<noteq> None)"

definition block_ring_text :: "string \<Rightarrow> string option" where
  "block_ring_text poly_block = (let pb = strip_block poly_block in first_ring pb 0 pb 0 None)"

definition exterior_texts :: "string \<Rightarrow> string list" where
  "exterior_texts wkt =
     (let inner = strip_wrapper wkt
      in List.map_filter block_ring_text (split_polygons inner 0 inner 0 None []))"

definition rings_nonempty :: "ring list \<Rightarrow> bool" where
  "rings_nonempty rings = list_all (\<lambda>r. r \<noteq> []) rings"

definition boundaries_nonempty :: "boundaries \<Rightarrow> bool" where
  "boundaries_nonempty bs = list_all (\<lambda>(name, rings). rings \<noteq> [] \<and> rings_nonempty rings) bs"

fun bbox_finite :: "bbox \<Rightarrow> bool" where
  "bbox_finite (a, b, c, d) = (is_finite a \<and> is_finite b \<and> is_finite c \<and> is_finite d)"

definition dumbo_csv :: "csv_row list" where
  "dumbo_csv =
     [[(''F_ALL_BI_2'', Some '' DUMBO ''),
       (''the_geom'', Some ''MULTIPOLYGON (((1 2, 3 4, 5 6, 1 2)), ((7 8, 9 10, 7 8), (0 0, 1 1, 0 0)))'')],
      [(''F_ALL_BI_2'', Some ''Times Square''), (''the_geom'', Some ''MULTIPOLYGON (((1 x)))'')]]"

text \<open>A file whose one tracked row has a ring with the coordinate token \<open>inf\<close>.\<close>

definition inf_csv :: "csv_row list" where
  "inf_csv =
     [[(''F_ALL_BI_2'', Some ''DUMBO''),
       (''the_geom'', Some ''MULTIPOLYGON (((inf inf, 0 0)))'')]]"

text \<open>
  The mapping \<open>main\<close> works with: what the loader returned with the Gowanus boundary
  injected.
\<close>

definition with_gowanus :: "boundaries \<Rightarrow> boundaries" where
  "with_gowanus loaded = dict_set ''Gowanus BID (Proposed)'' [GOWANUS_BOUNDARY] loaded"

definition unit_square :: ring where
  "unit_square = [(Fin 0, Fin 0), (Fin 0, Fin 1), (Fin 1, Fin 1), (Fin 1, Fin 0)]"

definition big_square :: ring where
  "big_square = [(Fin 0, Fin 0), (Fin 0, Fin 2), (Fin 2, Fin 2), (Fin 2, Fin 0)]"

text \<open>Three boundaries that all contain the point (0.5, 0.5), iterated in this order.\<close>

definition three_boundaries :: boundaries where
  "three_boundaries = [(''C'', [big_square]), (''A'', [unit_square]), (''B'', [big_square])]"

text \<open>
  A boundary set that spans the longitudes -74.0 to -73.9 and the latitudes 40.6 to
  40.7, each coordinate the binary64 value of its literal.
\<close>

definition span_boundaries :: boundaries where
  "span_boundaries =
     [(''A'', [[(to_float (- 74.0), to_float 40.6), (to_float (- 73.9), to_float 40.7)]]),
      (''B'', [[(to_float (- 73.95), to_float 40.65)]])]"

text \<open>
  Rows: one whose longitude is not a number, one whose longitude is an integer of 310
  digits, and one inside the unit square.
\<close>

definition bad_lon_row :: row where
  "bad_lon_row = [(''longitude'', JStr ''abc''), (''latitude'', JStr ''40.6'')]"

definition huge_int :: int where
  "huge_int = 10 ^ 309"

definition huge_lon_row :: row where
  "huge_lon_row = [(''longitude'', JInt huge_int), (''latitude'', JStr ''40.6'')]"

definition square_lot :: row where
  "square_lot =
     [(''bbl'', JStr ''3000010001''), (''longitude'', JStr ''0.5''), (''latitude'', JStr ''0.5''),
      (''assesstot'', JStr ''125000'')]"

definition square_parcel :: parcel where
  "square_parcel =
     \<lparr> p_lat = Fin (1 / 2), p_lon = Fin (1 / 2), p_assesstot = Fin 125000,
       p_assessland = Fin 0, p_address = JStr [], p_bbl = JStr ''3000010001'',
       p_bid_name = Some ''DUMBO'', p_bldgclass = JStr [], p_landuse = JStr [],
       p_yearbuilt = 0, p_numfloors = Fin 0, p_lotarea = Fin 0, p_color = [128, 128, 128] \<rparr>"

text \<open>
  A small run: a file with one tracked BID whose boundary is the unit square, and a
  server with two rows, \<open>square_lot\<close> and \<open>bad_lon_row\<close>.
\<close>

definition square_csv :: "csv_row list" where
  "square_csv =
     [[(''F_ALL_BI_2'', Some ''DUMBO''),
       (''the_geom'', Some ''MULTIPOLYGON (((0 0, 0 1, 1 1, 1 0, 0 0)))'')]]"

definition square_ring :: ring where
  "square_ring = [(Fin 0, Fin 0), (Fin 0, Fin 1), (Fin 1, Fin 1), (Fin 1, Fin 0), (Fin 0, Fin 0)]"

definition square_doc :: document where
  "square_doc =
     \<lparr> d_parcels = [square_parcel],
       d_bid_boundaries = build_geojson_boundaries (with_gowanus [(''DUMBO'', [square_ring])]) \<rparr>"

section \<open>Properties of the rounding\<close>

lemma float_limit_pow: "float_limit = 2 ^ 1024"
  by (simp add: float_limit_def)

lemma round_half_even_error: "\<bar>of_int (round_half_even m) - m\<bar> \<le> 1 / 2"
proof -
  have "of_int \<lfloor>m\<rfloor> \<le> m" "m < of_int \<lfloor>m\<rfloor> + 1" by linarith+
  then show ?thesis by (auto simp: round_half_even_def Let_def)
qed

lemma pow2_pos: "0 < pow2 e"
  by (simp add: pow2_def)

lemma pow2_le: "e \<le> 971 \<Longrightarrow> pow2 e \<le> 2 ^ 971"
proof (cases "e \<ge> 0")
  case True
  assume "e \<le> 971"
  then have "nat e \<le> 971" by simp
  then have "(2::real) ^ nat e \<le> 2 ^ 971" by (intro power_increasing) simp_all
  then show ?thesis using True by (simp add: pow2_def)
next
  case False
  have "1 / (2::real) ^ nat (- e) \<le> 1" by simp
  also have "(1::real) \<le> 2 ^ 971" by simp
  finally show ?thesis using False by (simp add: pow2_def)
qed

lemma ulp_exponent_le: "ulp_exponent x \<le> 971"
  by (simp add: ulp_exponent_def)

lemma round64_error: "\<bar>round64 x - x\<bar> \<le> 2 ^ 970"
proof (cases "x = 0")
  case True
  then show ?thesis by (simp add: round64_def)
next
  case False
  define p where "p = pow2 (ulp_exponent x)"
  define n where "n = round_half_even (x / p)"
  have p: "0 < p" "p \<le> 2 ^ 971" unfolding p_def using pow2_pos pow2_le ulp_exponent_le by auto
  have "round64 x - x = (of_int n - x / p) * p"
    using False p(1) by (simp add: round64_def Let_def p_def n_def field_simps)
  then have "\<bar>round64 x - x\<bar> = \<bar>of_int n - x / p\<bar> * p"
    using p(1) by (simp add: abs_mult)
  also have "\<dots> \<le> (1 / 2) * p"
    using round_half_even_error [of "x / p"] p(1) unfolding n_def
    by (intro mult_right_mono) simp_all
  also have "\<dots> \<le> (1 / 2) * 2 ^ 971" using p(2) by simp
  also have "\<dots> = 2 ^ 970" by simp
  finally show ?thesis .
qed

lemma to_float_finite:
  assumes "\<bar>x\<bar> \<le> max_float + 1"
  shows "to_float x = Fin (round64 x)"
proof -
  have "\<bar>round64 x\<bar> \<le> \<bar>x\<bar> + 2 ^ 970" using round64_error [of x] by linarith
  also have "\<dots> \<le> max_float + 1 + 2 ^ 970" using assms by simp
  also have "\<dots> < float_limit" by (simp add: max_float_def float_limit_pow)
  finally show ?thesis by (simp add: to_float_def Let_def)
qed

lemma to_float_overflow:
  assumes "\<bar>x\<bar> \<ge> float_limit + 2 ^ 970"
  shows "\<not> is_finite (to_float x)"
proof -
  have "\<bar>round64 x\<bar> \<ge> \<bar>x\<bar> - 2 ^ 970" using round64_error [of x] by linarith
  then have "\<bar>round64 x\<bar> \<ge> float_limit" using assms by linarith
  then show ?thesis by (simp add: to_float_def Let_def)
qed

lemma buf_small: "\<bar>round64 (2 / 1000)\<bar> \<le> 1"
  by code_simp

lemma huge_overflow: "py_float_of pf (JInt huge_int) = Inl OverflowError"
proof -
  have "\<bar>(10::real) ^ 309\<bar> \<ge> float_limit + 2 ^ 970" by (simp add: float_limit_def)
  then have "\<not> is_finite (to_float (10 ^ 309))" by (rule to_float_overflow)
  then have "\<not> is_finite (to_float (of_int huge_int))" by (simp add: huge_int_def)
  then show ?thesis by (cases "to_float (of_int huge_int)") simp_all
qed

section \<open>Properties of the ray cast\<close>

lemma f_gt_differ_sub:
  "f_gt yi lat \<noteq> f_gt yj lat \<Longrightarrow> f_sub yj yi \<noteq> Fin 0"
  by (cases yi; cases yj; cases lat) (auto simp: f_gt_def f_sub_def)

lemma f_div_total: "b \<noteq> Fin 0 \<Longrightarrow> \<exists>q. f_div a b = Inr q"
  by (cases a; cases b) auto

lemma edge_crossed_total: "\<exists>b. edge_crossed lon lat p q = Inr b"
proof -
  obtain xi yi xj yj where pq: "p = (xi, yi)" "q = (xj, yj)" by (cases p; cases q) auto
  show ?thesis
  proof (cases "f_gt yi lat \<noteq> f_gt yj lat")
    case True
    then obtain d where "f_div (f_mul (f_sub xj xi) (f_sub lat yi)) (f_sub yj yi) = Inr d"
      using f_div_total [OF f_gt_differ_sub] by blast
    then show ?thesis using True by (simp add: pq)
  next
    case False
    then have "edge_crossed lon lat p q = Inr False" by (simp add: pq)
    then show ?thesis by blast
  qed
qed

lemma ring_loop_total: "\<exists>b. ring_loop lon lat ring is j inside = Inr b"
proof (induction "is" arbitrary: j inside)
  case Nil
  show ?case by simp
next
  case (Cons i "is")
  obtain c where c: "edge_crossed lon lat (ring ! i) (ring ! j) = Inr c"
    using edge_crossed_total by blast
  show ?case using Cons.IH [of i "if c then \<not> inside else inside"] by (simp add: c)
qed

lemma point_in_ring_total: "\<exists>b. point_in_ring lon lat ring = Inr b"
  by (simp add: point_in_ring_def Let_def ring_loop_total)

lemma point_in_ring_cases:
  "point_in_ring lon lat ring = Inr (contains_point lon lat ring)"
  using point_in_ring_total [of lon lat ring] by (auto simp: contains_point_def)

lemma rings_contain_eq:
  "rings_contain lon lat rings = Inr (\<exists>r \<in> set rings. contains_point lon lat r)"
  by (induction rings) (auto simp: point_in_ring_cases split: bool.splits)

lemma find_bid_eq:
  "find_bid lon lat bs = Inr (map_option fst (find (boundary_contains lon lat) bs))"
  by (induction bs) (auto simp: rings_contain_eq boundary_contains_def split: bool.splits)

lemma edge_crossed_level: "edge_crossed lon lat (xi, y) (xj, y) = Inr False"
  by simp

text \<open>
  C2 (as the code has it). The claim says that some ring with a horizontal edge at the
  query latitude makes \<open>point_in_ring\<close> raise a division by zero. The code never does:
  for every ring and every point \<open>point_in_ring\<close> returns a boolean, because an edge
  whose endpoint latitudes are equal fails the test \<open>(yi > lat) != (yj > lat)\<close> and the
  \<open>and\<close> then skips the division; such an edge never toggles \<open>inside\<close>.
\<close>

theorem point_in_ring_no_division_by_zero:
  "(\<exists>inside. point_in_ring lon lat ring = Inr inside) \<and>
   edge_crossed lon lat (xi, y) (xj, y) = Inr False"
  using point_in_ring_total [of lon lat ring] edge_crossed_level [of lon lat xi y xj] by simp

theorem point_in_ring_no_division_by_zero_witness:
  "horizontal_edge_at (Fin 0) [(Fin 0, Fin 0), (Fin 1, Fin 0), (Fin 1, Fin 1)] \<and>
   (\<exists>inside. point_in_ring (Fin (1 / 2)) (Fin 0)
       [(Fin 0, Fin 0), (Fin 1, Fin 0), (Fin 1, Fin 1)] = Inr inside) \<and>
   edge_crossed (Fin (1 / 2)) (Fin 0) (Fin 0, Fin 0) (Fin 1, Fin 0) = Inr False"
proof -
  have "horizontal_edge_at (Fin 0) [(Fin 0, Fin 0), (Fin 1, Fin 0), (Fin 1, Fin 1)]"
    unfolding horizontal_edge_at_def by (rule exI [of _ 1]) simp
  then show ?thesis
    using point_in_ring_no_division_by_zero [of "Fin (1 / 2)" "Fin 0"
        "[(Fin 0, Fin 0), (Fin 1, Fin 0), (Fin 1, Fin 1)]" "Fin 0" "Fin 0" "Fin 1"]
    by simp
qed

text \<open>
  C2 as stated is false: no ring with a horizontal edge at the query latitude, and no
  query point, makes \<open>point_in_ring\<close> raise ZeroDivisionError.
\<close>

theorem point_in_ring_division_counterexample:
  "\<not> (\<exists>lon lat ring. horizontal_edge_at lat ring \<and>
         point_in_ring lon lat ring = Inl ZeroDivisionError)"
proof
  assume "\<exists>lon lat ring. horizontal_edge_at lat ring \<and>
            point_in_ring lon lat ring = Inl ZeroDivisionError"
  then obtain lon lat ring where "point_in_ring lon lat ring = Inl ZeroDivisionError"
    by blast
  moreover obtain b where "point_in_ring lon lat ring = Inr b"
    using point_in_ring_total by blast
  ultimately show False by simp
qed

section \<open>Properties of the classification\<close>

lemma find_append_cases:
  "find P (xs @ ys) = (case find P xs of None \<Rightarrow> find P ys | Some x \<Rightarrow> Some x)"
  by (induction xs) auto

lemma find_in_set: "find P xs = Some x \<Longrightarrow> x \<in> set xs \<and> P x"
  by (induction xs) (auto split: if_splits)

lemma find_bid_in_keys: "find_bid x y bs = Inr (Some n) \<Longrightarrow> n \<in> fst ` set bs"
  by (force simp: find_bid_eq dest!: find_in_set)

lemma make_parcel_fields:
  "make_parcel pf row x y bid = Inr p \<Longrightarrow> p_lon p = x \<and> p_lat p = y \<and> p_bid_name p = bid"
  by (auto simp: make_parcel_def split: sum.splits)

lemma make_parcel_assigned:
  "make_parcel pf row x y (Some n) = Inr p \<Longrightarrow> find_bid x y bs = Inr (Some n) \<Longrightarrow>
     assigned bs p"
  using make_parcel_fields [of pf row x y "Some n" p] by (simp add: assigned_def)

lemma spatial_filter_assigned:
  "spatial_filter pf bs rows acc = Inr ps \<Longrightarrow> \<forall>p \<in> set acc. assigned bs p \<Longrightarrow>
     \<forall>p \<in> set ps. assigned bs p"
proof (induction rows arbitrary: acc)
  case Nil
  then show ?case by simp
next
  case (Cons row rows)
  from Cons.prems(1) obtain c where c: "row_coords pf row = Inr c"
    by (cases "row_coords pf row") auto
  show ?case
  proof (cases c)
    case None
    then have "spatial_filter pf bs rows acc = Inr ps" using Cons.prems(1) c by simp
    then show ?thesis using Cons.IH Cons.prems(2) by blast
  next
    case (Some xy)
    obtain x y where xy: "xy = (x, y)" by (cases xy)
    obtain r where r: "find_bid x y bs = Inr r" using find_bid_eq by blast
    show ?thesis
    proof (cases r)
      case None
      then have "spatial_filter pf bs rows acc = Inr ps"
        using Cons.prems(1) c Some xy r by simp
      then show ?thesis using Cons.IH Cons.prems(2) by blast
    next
      case (Some n)
      from Cons.prems(1) c \<open>c = Some xy\<close> xy r Some obtain p where
        p: "make_parcel pf row x y (Some n) = Inr p"
        by (cases "make_parcel pf row x y (Some n)") auto
      have rec: "spatial_filter pf bs rows (acc @ [p]) = Inr ps"
        using Cons.prems(1) c \<open>c = Some xy\<close> xy r Some p by simp
      have "assigned bs p" using make_parcel_assigned [OF p] r Some by simp
      then have "\<forall>q \<in> set (acc @ [p]). assigned bs q" using Cons.prems(2) by simp
      from Cons.IH [OF rec this] show ?thesis .
    qed
  qed
qed

lemma distinct_keys_before:
  assumes "distinct (map fst (pre @ a # mid @ b # post))"
  shows "fst a \<noteq> fst b" and "c \<in> set pre \<Longrightarrow> fst c \<noteq> fst b"
proof -
  from assms have d: "distinct (map fst pre @ fst a # map fst mid @ fst b # map fst post)"
    by simp
  then show "fst a \<noteq> fst b" by auto
  assume "c \<in> set pre"
  then have "fst c \<in> fst ` set pre" by (rule imageI)
  moreover from d have "fst b \<notin> fst ` set pre" by auto
  ultimately show "fst c \<noteq> fst b" by metis
qed

lemma find_bid_overlap:
  assumes "bs = pre @ a # mid @ b # post" and "distinct (map fst bs)"
    and "boundary_contains x y a"
  shows "find_bid x y bs \<noteq> Inr (Some (fst b))"
    and "(\<forall>c \<in> set pre. \<not> boundary_contains x y c) \<Longrightarrow> find_bid x y bs = Inr (Some (fst a))"
proof -
  let ?P = "boundary_contains x y"
  have d: "distinct (map fst (pre @ a # mid @ b # post))"
    using assms(1,2) by simp
  have fa: "find ?P (a # mid @ b # post) = Some a"
    using assms(3) by simp
  have split: "find ?P bs = (case find ?P pre of None \<Rightarrow> Some a | Some c \<Rightarrow> Some c)"
    by (simp only: assms(1) find_append_cases fa)
  show "find_bid x y bs \<noteq> Inr (Some (fst b))"
  proof (cases "find ?P pre")
    case None
    then have "find_bid x y bs = Inr (Some (fst a))" by (simp add: find_bid_eq split)
    moreover have "fst a \<noteq> fst b" using distinct_keys_before(1) [OF d] .
    ultimately show ?thesis by simp
  next
    case (Some c)
    then have "c \<in> set pre" using find_in_set [of ?P pre c] by simp
    then have "fst c \<noteq> fst b" using distinct_keys_before(2) [OF d] by simp
    then show ?thesis using Some by (simp add: find_bid_eq split)
  qed
  assume "\<forall>c \<in> set pre. \<not> ?P c"
  then have "find ?P pre = None" by (simp add: find_None_iff)
  then show "find_bid x y bs = Inr (Some (fst a))" by (simp add: find_bid_eq split)
qed

lemma unit_square_contains:
  "boundary_contains (Fin (1 / 2)) (Fin (1 / 2)) (''A'', [unit_square])"
  unfolding boundary_contains_def contains_point_def unit_square_def by code_simp

lemma big_square_contains:
  "boundary_contains (Fin (1 / 2)) (Fin (1 / 2)) (''B'', [big_square])"
  unfolding boundary_contains_def contains_point_def big_square_def by code_simp

lemma three_boundaries_first:
  "find_bid (Fin (1 / 2)) (Fin (1 / 2)) three_boundaries = Inr (Some ''C'')"
  unfolding three_boundaries_def unit_square_def big_square_def by code_simp

text \<open>
  C1 (as the code has it). For every point and every boundary mapping \<open>find_bid\<close>
  raises nothing and returns the name of the first boundary, in the iteration order of
  the mapping, one of whose rings contains the point under the ray cast, and \<open>None\<close>
  when there is none. Every parcel the loop of \<open>main\<close> emits therefore carries a BID
  name that is set, the one \<open>find_bid\<close> gives for its coordinates. When two
  boundaries \<open>a\<close> and \<open>b\<close> of a mapping (keys distinct, as in a dict) both contain
  the point and \<open>a\<close> is iterated before \<open>b\<close>, the point is never assigned to \<open>b\<close>,
  and it is assigned to \<open>a\<close> when no boundary before \<open>a\<close> contains it.
\<close>

theorem find_bid_first_match:
  "find_bid x y bs = Inr (map_option fst (find (boundary_contains x y) bs)) \<and>
   (spatial_filter pf bs rows [] = Inr ps \<longrightarrow> (\<forall>p \<in> set ps. assigned bs p)) \<and>
   (bs = pre @ a # mid @ b # post \<and> distinct (map fst bs) \<and>
    boundary_contains x y a \<and> boundary_contains x y b \<longrightarrow>
      find_bid x y bs \<noteq> Inr (Some (fst b)) \<and>
      ((\<forall>c \<in> set pre. \<not> boundary_contains x y c) \<longrightarrow> find_bid x y bs = Inr (Some (fst a))))"
  using find_bid_eq [of x y bs] spatial_filter_assigned [of pf bs rows "[]" ps]
    find_bid_overlap [of bs pre a mid b post x y]
  by auto

lemma square_lot_filter:
  "spatial_filter decimal_float [(''A'', [unit_square]), (''B'', [big_square])]
     [square_lot, bad_lon_row] [] = Inr [square_parcel \<lparr> p_bid_name := Some ''A'' \<rparr>]"
  unfolding unit_square_def big_square_def by code_simp

theorem find_bid_first_match_witness:
  "find_bid (Fin (1 / 2)) (Fin (1 / 2)) [(''A'', [unit_square]), (''B'', [big_square])]
     = Inr (Some ''A'') \<and>
   find_bid (Fin (1 / 2)) (Fin (1 / 2)) [(''A'', [unit_square]), (''B'', [big_square])]
     \<noteq> Inr (Some ''B'') \<and>
   spatial_filter decimal_float [(''A'', [unit_square]), (''B'', [big_square])]
     [square_lot, bad_lon_row] [] = Inr [square_parcel \<lparr> p_bid_name := Some ''A'' \<rparr>] \<and>
   assigned [(''A'', [unit_square]), (''B'', [big_square])]
     (square_parcel \<lparr> p_bid_name := Some ''A'' \<rparr>)"
  using find_bid_first_match [of "Fin (1 / 2)" "Fin (1 / 2)"
      "[(''A'', [unit_square]), (''B'', [big_square])]"
      decimal_float "[square_lot, bad_lon_row]" "[square_parcel \<lparr> p_bid_name := Some ''A'' \<rparr>]"
      "[]" "(''A'', [unit_square])" "[]" "(''B'', [big_square])" "[]"]
    unit_square_contains big_square_contains square_lot_filter
  by simp

text \<open>
  C1 as stated is false in its last clause: of the three boundaries C, A and B, that
  all contain the point (0.5, 0.5), A is iterated before B and the assignment is C.
\<close>

theorem find_bid_always_first_counterexample:
  "boundary_contains (Fin (1 / 2)) (Fin (1 / 2)) (''A'', [unit_square]) \<and>
   boundary_contains (Fin (1 / 2)) (Fin (1 / 2)) (''B'', [big_square]) \<and>
   three_boundaries = [(''C'', [big_square]), (''A'', [unit_square]), (''B'', [big_square])] \<and>
   find_bid (Fin (1 / 2)) (Fin (1 / 2)) three_boundaries = Inr (Some ''C'') \<and>
   find_bid (Fin (1 / 2)) (Fin (1 / 2)) three_boundaries \<noteq> Inr (Some ''A'')"
  using unit_square_contains big_square_contains three_boundaries_first
  by (simp add: three_boundaries_def)

section \<open>Properties of the parcel loop\<close>

lemma py_float_of_errors:
  "py_float_of pf v = Inl e \<Longrightarrow> e = ValueError \<or> e = TypeError \<or> e = OverflowError"
  by (cases v) (auto split: option.splits pyfloat.splits)

lemma row_coords_None_iff:
  "row_coords pf row = Inr None \<longleftrightarrow>
     unparseable pf (row_get row ''longitude'' (JInt 0)) \<or>
     (\<exists>x. py_float_of pf (row_get row ''longitude'' (JInt 0)) = Inr x \<and>
        (unparseable pf (row_get row ''latitude'' (JInt 0)) \<or>
         (\<exists>y. py_float_of pf (row_get row ''latitude'' (JInt 0)) = Inr y \<and>
              (x = Fin 0 \<or> y = Fin 0))))"
  by (auto simp: row_coords_def unparseable_def split: sum.splits)

lemma row_coords_error_iff:
  "row_coords pf row = Inl e \<longleftrightarrow>
     e = OverflowError \<and>
     (py_float_of pf (row_get row ''longitude'' (JInt 0)) = Inl OverflowError \<or>
      (\<exists>x. py_float_of pf (row_get row ''longitude'' (JInt 0)) = Inr x \<and>
         py_float_of pf (row_get row ''latitude'' (JInt 0)) = Inl OverflowError))"
  by (auto simp: row_coords_def caught_def split: sum.splits dest: py_float_of_errors)

lemma row_coords_Some_iff:
  "row_coords pf row = Inr (Some (x, y)) \<longleftrightarrow>
     py_float_of pf (row_get row ''longitude'' (JInt 0)) = Inr x \<and>
     py_float_of pf (row_get row ''latitude'' (JInt 0)) = Inr y \<and> x \<noteq> Fin 0 \<and> y \<noteq> Fin 0"
  by (auto simp: row_coords_def split: sum.splits)

lemma spatial_filter_skip:
  "row_coords pf row = Inr None \<Longrightarrow>
     spatial_filter pf bs (row # rows) acc = spatial_filter pf bs rows acc"
  by simp

lemma spatial_filter_abort:
  "row_coords pf row = Inl e \<Longrightarrow> spatial_filter pf bs (row # rows) acc = Inl e"
  by simp

lemma spatial_filter_classify:
  "row_coords pf row = Inr (Some (x, y)) \<Longrightarrow>
     spatial_filter pf bs (row # rows) acc =
       (case find_bid x y bs of
          Inl e \<Rightarrow> Inl e
        | Inr None \<Rightarrow> spatial_filter pf bs rows acc
        | Inr (Some n) \<Rightarrow>
            (case make_parcel pf row x y (Some n) of
               Inl e \<Rightarrow> Inl e
             | Inr p \<Rightarrow> spatial_filter pf bs rows (acc @ [p])))"
  by (auto split: sum.splits option.splits)

lemma bad_lon_row_rejected: "row_coords decimal_float bad_lon_row = Inr None"
  by code_simp

lemma bad_lon_row_longitude:
  "unparseable decimal_float (row_get bad_lon_row ''longitude'' (JInt 0))"
  by code_simp

lemma bad_lon_row_latitude:
  "py_float_of decimal_float (row_get bad_lon_row ''latitude'' (JInt 0)) = Inr (to_float 40.6)"
  by code_simp

lemma to_float_40_6: "to_float 40.6 \<noteq> Fin 0"
  by code_simp

lemma huge_lon_row_aborts: "row_coords pf huge_lon_row = Inl OverflowError"
proof -
  have g: "row_get huge_lon_row ''longitude'' (JInt 0) = JInt huge_int"
    by (simp add: huge_lon_row_def row_get_def)
  show ?thesis unfolding row_coords_def g huge_overflow by (simp add: caught_def)
qed

text \<open>
  C3 (as the code has it). A fetched row is rejected, that is skipped with nothing
  appended, exactly when \<open>float\<close> raises ValueError or TypeError on its longitude, or
  the longitude converts and \<open>float\<close> raises one of the two on its latitude, or both
  convert and one of them is zero: both conversions stand in one \<open>try\<close>, so one
  failure is enough. A coordinate that is an integer beyond the float range raises
  OverflowError when its conversion is reached; the handler does not catch it and the
  loop ends with that error. Every other row goes on to \<open>find_bid\<close> with its two
  coordinates.
\<close>

theorem row_rejected_iff:
  "(row_coords pf row = Inr None \<longleftrightarrow>
      unparseable pf (row_get row ''longitude'' (JInt 0)) \<or>
      (\<exists>x. py_float_of pf (row_get row ''longitude'' (JInt 0)) = Inr x \<and>
         (unparseable pf (row_get row ''latitude'' (JInt 0)) \<or>
          (\<exists>y. py_float_of pf (row_get row ''latitude'' (JInt 0)) = Inr y \<and>
               (x = Fin 0 \<or> y = Fin 0))))) \<and>
   (row_coords pf row = Inl e \<longleftrightarrow>
      e = OverflowError \<and>
      (py_float_of pf (row_get row ''longitude'' (JInt 0)) = Inl OverflowError \<or>
       (\<exists>x. py_float_of pf (row_get row ''longitude'' (JInt 0)) = Inr x \<and>
          py_float_of pf (row_get row ''latitude'' (JInt 0)) = Inl OverflowError))) \<and>
   (row_coords pf row = Inr (Some (x, y)) \<longleftrightarrow>
      py_float_of pf (row_get row ''longitude'' (JInt 0)) = Inr x \<and>
      py_float_of pf (row_get row ''latitude'' (JInt 0)) = Inr y \<and>
      x \<noteq> Fin 0 \<and> y \<noteq> Fin 0) \<and>
   (row_coords pf row = Inr None \<longrightarrow>
      spatial_filter pf bs (row # rows) acc = spatial_filter pf bs rows acc) \<and>
   (row_coords pf row = Inl e \<longrightarrow> spatial_filter pf bs (row # rows) acc = Inl e) \<and>
   (row_coords pf row = Inr (Some (x, y)) \<longrightarrow>
      spatial_filter pf bs (row # rows) acc =
        (case find_bid x y bs of
           Inl e \<Rightarrow> Inl e
         | Inr None \<Rightarrow> spatial_filter pf bs rows acc
         | Inr (Some n) \<Rightarrow>
             (case make_parcel pf row x y (Some n) of
                Inl e \<Rightarrow> Inl e
              | Inr p \<Rightarrow> spatial_filter pf bs rows (acc @ [p]))))"
  using row_coords_None_iff [of pf row] row_coords_error_iff [of pf row e]
    row_coords_Some_iff [of pf row x y] spatial_filter_skip [of pf row bs rows acc]
    spatial_filter_abort [of pf row e bs rows acc]
    spatial_filter_classify [of pf row x y bs rows acc]
  by blast

lemma square_lot_coords: "row_coords decimal_float square_lot = Inr (Some (Fin (1 / 2), Fin (1 / 2)))"
  by code_simp

theorem row_rejected_iff_witness:
  "row_coords decimal_float bad_lon_row = Inr None \<and>
   spatial_filter decimal_float [(''A'', [unit_square])] [bad_lon_row] [] = Inr [] \<and>
   row_coords decimal_float huge_lon_row = Inl OverflowError \<and>
   spatial_filter decimal_float [(''A'', [unit_square])] [huge_lon_row] [] = Inl OverflowError \<and>
   row_coords decimal_float square_lot = Inr (Some (Fin (1 / 2), Fin (1 / 2))) \<and>
   py_float_of decimal_float (row_get square_lot ''longitude'' (JInt 0)) = Inr (Fin (1 / 2))"
proof -
  note t1 = row_rejected_iff [of decimal_float bad_lon_row OverflowError "Fin 0" "Fin 0"
      "[(''A'', [unit_square])]" "[]" "[]"]
  note t2 = row_rejected_iff [of decimal_float huge_lon_row OverflowError "Fin 0" "Fin 0"
      "[(''A'', [unit_square])]" "[]" "[]"]
  note t3 = row_rejected_iff [of decimal_float square_lot OverflowError "Fin (1 / 2)" "Fin (1 / 2)"
      "[(''A'', [unit_square])]" "[]" "[]"]
  have a: "spatial_filter decimal_float [(''A'', [unit_square])] [bad_lon_row] [] = Inr []"
    using t1 bad_lon_row_rejected by simp
  have b: "spatial_filter decimal_float [(''A'', [unit_square])] [huge_lon_row] [] = Inl OverflowError"
    using t2 huge_lon_row_aborts by simp
  have c: "py_float_of decimal_float (row_get square_lot ''longitude'' (JInt 0)) = Inr (Fin (1 / 2))"
    using t3 square_lot_coords by blast
  show ?thesis
    using a b c bad_lon_row_rejected huge_lon_row_aborts square_lot_coords by simp
qed

text \<open>
  C3 as stated is false: the row with longitude \<open>abc\<close> and latitude \<open>40.6\<close> is
  rejected although its latitude converts (so not both fields are unparseable) and no
  converted coordinate is zero.
\<close>

theorem row_rejected_counterexample:
  "row_coords decimal_float bad_lon_row = Inr None \<and>
   \<not> (unparseable decimal_float (row_get bad_lon_row ''longitude'' (JInt 0)) \<and>
      unparseable decimal_float (row_get bad_lon_row ''latitude'' (JInt 0))) \<and>
   py_float_of decimal_float (row_get bad_lon_row ''longitude'' (JInt 0)) \<noteq> Inr (Fin 0) \<and>
   py_float_of decimal_float (row_get bad_lon_row ''latitude'' (JInt 0)) \<noteq> Inr (Fin 0)"
  using bad_lon_row_rejected bad_lon_row_longitude bad_lon_row_latitude to_float_40_6
  by (auto simp: unparseable_def)

section \<open>Properties of the currency formatter\<close>

lemma round_half_even_of_int: "round_half_even (of_int k) = k"
  by (simp add: round_half_even_def)

lemma format_fixed_0_of_int:
  "format_fixed 0 (of_int n) = (if n < 0 then ''-'' else []) @ str_int \<bar>n\<bar>"
proof -
  have "\<bar>(of_int n :: real)\<bar> = of_int \<bar>n\<bar>" by simp
  then have "round_half_even (\<bar>of_int n\<bar> * 10 ^ 0) = \<bar>n\<bar>"
    by (simp only: power_0 mult_1_right round_half_even_of_int)
  then show ?thesis
    by (simp add: format_fixed_def Let_def)
qed

lemma format_currency_below_1000:
  "v \<noteq> 0 \<Longrightarrow> v < 1000 \<Longrightarrow> format_currency (Some v) = ''$'' @ format_fixed 0 v"
  by (simp add: format_currency_def)

lemma format_currency_missing: "format_currency None = em_dash"
  by (simp add: format_currency_def)

lemma format_currency_zero: "format_currency (Some 0) = em_dash"
  by (simp add: format_currency_def)

lemma format_currency_1500000: "format_currency (Some 1500000) = ''$1.5M''"
  by code_simp

lemma format_currency_2500: "format_currency (Some 2500) = ''$2K''"
  by code_simp

lemma format_fixed_tie: "format_fixed 0 (25 / 2) = ''12''"
  by code_simp

lemma str_int_999: "str_int 999 = ''999''"
  by code_simp

text \<open>
  C4 (as the code has it). \<open>format_currency\<close> returns the dash for a missing value and
  for 0, \<open>$1.5M\<close> for 1,500,000 and \<open>$2K\<close> for 2,500: the format \<open>.0f\<close> rounds the tie
  2.5 to the even digit. Every value below 1000 other than 0 renders as \<open>$N\<close> with no
  decimals, \<open>N\<close> being the value rounded to an integer (a tie to the even one); for a
  whole number of dollars \<open>N\<close> is that number.
\<close>

theorem format_currency_compact:
  "format_currency None = em_dash \<and>
   format_currency (Some 0) = em_dash \<and>
   format_currency (Some 1500000) = ''$1.5M'' \<and>
   format_currency (Some 2500) = ''$2K'' \<and>
   (v \<noteq> 0 \<and> v < 1000 \<longrightarrow> format_currency (Some v) = ''$'' @ format_fixed 0 v) \<and>
   (n \<noteq> 0 \<and> n < 1000 \<longrightarrow>
      format_currency (Some (of_int n)) = ''$'' @ (if n < 0 then ''-'' else []) @ str_int \<bar>n\<bar>)"
proof -
  have "n \<noteq> 0 \<and> n < 1000 \<longrightarrow>
      format_currency (Some (of_int n)) = ''$'' @ (if n < 0 then ''-'' else []) @ str_int \<bar>n\<bar>"
    using format_currency_below_1000 [of "of_int n"] format_fixed_0_of_int [of n] by simp
  then show ?thesis
    using format_currency_missing format_currency_zero format_currency_1500000
      format_currency_2500 format_currency_below_1000 [of v]
    by simp
qed

theorem format_currency_compact_witness:
  "format_currency (Some (25 / 2)) = ''$12'' \<and> format_currency (Some 999) = ''$999''"
  using format_currency_compact [of "25 / 2" 999] format_fixed_tie str_int_999 by simp

text \<open>C4 as stated is false at 2,500: the result is not \<open>$3K\<close>.\<close>

theorem format_currency_2500_counterexample:
  "format_currency (Some 2500) \<noteq> ''$3K''"
  by code_simp

section \<open>Properties of the bounding box\<close>

lemma bbox_nested_foldl:
  "foldl (\<lambda>acc rings. foldl (\<lambda>acc ring. foldl bbox_step acc ring) acc rings) acc rss
     = foldl bbox_step acc (concat (concat rss))"
proof (induction rss arbitrary: acc)
  case Nil
  show ?case by simp
next
  case (Cons rs rss)
  have inner: "foldl (\<lambda>acc ring. foldl bbox_step acc ring) a rs = foldl bbox_step a (concat rs)" for a
    by (induction rs arbitrary: a) simp_all
  show ?case by (simp add: Cons.IH inner)
qed

lemma bbox_step_Fin:
  "bbox_step (Fin a, Fin b, Fin c, Fin d) (Fin x, Fin y) =
     (Fin (if x < a then x else a), Fin (if b < x then x else b),
      Fin (if y < c then y else c), Fin (if d < y then y else d))"
  by (simp add: py_min_def py_max_def f_gt_def)

lemma bbox_foldl_Fin:
  "fin_points cs \<Longrightarrow>
   foldl bbox_step (Fin a, Fin b, Fin c, Fin d) cs =
     (Fin (Min (insert a ((fin_value \<circ> fst) ` set cs))),
      Fin (Max (insert b ((fin_value \<circ> fst) ` set cs))),
      Fin (Min (insert c ((fin_value \<circ> snd) ` set cs))),
      Fin (Max (insert d ((fin_value \<circ> snd) ` set cs))))"
proof (induction cs arbitrary: a b c d)
  case Nil
  show ?case by simp
next
  case (Cons p cs)
  from Cons.prems obtain x y where p: "p = (Fin x, Fin y)" and cs: "fin_points cs"
    by (cases p; cases "fst p"; cases "snd p") (auto simp: fin_points_def)
  have m1: "Min (insert (if x < a then x else a) S) = Min (insert a (insert x S))"
    if "finite S" for S a and x :: real
    using that by (cases "S = {}") (auto simp: min_def)
  have m2: "Max (insert (if a < x then x else a) S) = Max (insert a (insert x S))"
    if "finite S" for S a and x :: real
    using that by (cases "S = {}") (auto simp: max_def)
  show ?case
    unfolding p foldl_Cons bbox_step_Fin Cons.IH [OF cs]
    by (simp add: m1 m2)
qed

lemma bbox_foldl_init:
  assumes "cs \<noteq> []" and "fin_points cs"
  shows "foldl bbox_step (PosInf, NegInf, PosInf, NegInf) cs =
     (Fin (Min ((fin_value \<circ> fst) ` set cs)), Fin (Max ((fin_value \<circ> fst) ` set cs)),
      Fin (Min ((fin_value \<circ> snd) ` set cs)), Fin (Max ((fin_value \<circ> snd) ` set cs)))"
proof -
  obtain p cs' where c: "cs = p # cs'" using assms(1) by (cases cs) auto
  from assms(2) c obtain x y where p: "p = (Fin x, Fin y)" and cs': "fin_points cs'"
    by (cases p; cases "fst p"; cases "snd p") (auto simp: fin_points_def)
  have first: "bbox_step (PosInf, NegInf, PosInf, NegInf) (Fin x, Fin y) = (Fin x, Fin x, Fin y, Fin y)"
    by (simp add: py_min_def py_max_def f_gt_def)
  show ?thesis
    unfolding c p foldl_Cons first bbox_foldl_Fin [OF cs']
    by simp
qed

lemma max_float_pos: "1000 \<le> max_float"
  by (simp add: max_float_def float_limit_def)

lemma finite_float_cases: "finite_float v \<Longrightarrow> \<exists>x. v = Fin x \<and> \<bar>x\<bar> \<le> max_float"
  by (cases v) auto

lemma coords_finite_fin_points: "coords_finite bs \<Longrightarrow> fin_points (all_coords bs)"
  unfolding coords_finite_def fin_points_def list_all_iff
  by (auto dest!: finite_float_cases)

lemma coords_finite_bound:
  assumes "coords_finite bs"
  shows "\<forall>x \<in> lons bs. \<bar>x\<bar> \<le> max_float" and "\<forall>y \<in> lats bs. \<bar>y\<bar> \<le> max_float"
  using assms unfolding coords_finite_def lons_def lats_def list_all_iff
  by (auto dest!: finite_float_cases)

lemma buf_value: "to_float 0.002 = Fin (round64 0.002)"
  using max_float_pos by (intro to_float_finite) simp

lemma buf_bound: "\<bar>round64 0.002\<bar> \<le> 1"
  using buf_small by simp

lemma buffered_finite:
  assumes "\<bar>m\<bar> \<le> max_float" and "\<bar>b\<bar> \<le> 1"
  shows "f_sub64 (Fin m) (Fin b) = Fin (round64 (m - b))"
    and "f_add64 (Fin m) (Fin b) = Fin (round64 (m + b))"
proof -
  have "\<bar>m - b\<bar> \<le> max_float + 1" using assms by linarith
  then show "f_sub64 (Fin m) (Fin b) = Fin (round64 (m - b))"
    by (simp add: f_sub64_def f_sub_def to_float_finite)
  have "\<bar>m + b\<bar> \<le> max_float + 1" using assms by linarith
  then show "f_add64 (Fin m) (Fin b) = Fin (round64 (m + b))"
    by (simp add: f_add64_def to_float_finite)
qed

lemma bounding_box_eq:
  assumes "all_coords bs \<noteq> []" and "coords_finite bs"
  shows "bounding_box bs =
     (Fin (round64 (Min (lons bs) - round64 0.002)), Fin (round64 (Min (lats bs) - round64 0.002)),
      Fin (round64 (Max (lons bs) + round64 0.002)), Fin (round64 (Max (lats bs) + round64 0.002)))"
proof -
  have ne: "lons bs \<noteq> {}" "lats bs \<noteq> {}" "finite (lons bs)" "finite (lats bs)"
    using assms(1) by (simp_all add: lons_def lats_def)
  have bnd: "\<bar>Min (lons bs)\<bar> \<le> max_float" "\<bar>Max (lons bs)\<bar> \<le> max_float"
    "\<bar>Min (lats bs)\<bar> \<le> max_float" "\<bar>Max (lats bs)\<bar> \<le> max_float"
    using coords_finite_bound [OF assms(2)] ne Min_in Max_in by blast+
  have fold: "foldl (\<lambda>acc rings. foldl (\<lambda>acc ring. foldl bbox_step acc ring) acc rings)
          (PosInf, NegInf, PosInf, NegInf) (map snd bs) =
        (Fin (Min (lons bs)), Fin (Max (lons bs)), Fin (Min (lats bs)), Fin (Max (lats bs)))"
    unfolding bbox_nested_foldl lons_def lats_def
    using bbox_foldl_init [OF assms(1) coords_finite_fin_points [OF assms(2)]]
    by (simp only: all_coords_def)
  show ?thesis
    unfolding bounding_box_def fold
    by (simp only: Let_def prod.case buf_value buffered_finite [OF bnd(1) buf_bound]
        buffered_finite [OF bnd(2) buf_bound] buffered_finite [OF bnd(3) buf_bound]
        buffered_finite [OF bnd(4) buf_bound])
qed

lemma bounding_box_finite:
  "all_coords bs \<noteq> [] \<Longrightarrow> coords_finite bs \<Longrightarrow> bbox_finite (bounding_box bs)"
  by (simp add: bounding_box_eq)

lemma span_min_lon: "round64 (round64 (- 74.0) - round64 0.002) = round64 (- 74.002)" by code_simp
lemma span_min_lat: "round64 (round64 40.6 - round64 0.002) = round64 40.598" by code_simp
lemma span_max_lon: "round64 (round64 (- 73.9) + round64 0.002) = round64 (- 73.89800000000001)" by code_simp
lemma span_max_lat: "round64 (round64 40.7 + round64 0.002) = round64 40.702000000000005" by code_simp
lemma span_max_lon_differs: "round64 (- 73.89800000000001) \<noteq> round64 (- 73.898)" by code_simp

lemma to_float_small: "\<bar>x\<bar> \<le> 1000 \<Longrightarrow> to_float x = Fin (round64 x)"
  using max_float_pos by (intro to_float_finite) simp

lemma round64_small: "\<bar>x\<bar> \<le> 1000 \<Longrightarrow> \<bar>round64 x\<bar> \<le> max_float"
proof -
  assume "\<bar>x\<bar> \<le> 1000"
  then have "\<bar>round64 x\<bar> \<le> 1000 + 2 ^ 970" using round64_error [of x] by linarith
  also have "\<dots> \<le> max_float" by (simp add: max_float_def float_limit_pow)
  finally show ?thesis .
qed

lemma span_coords:
  "span_boundaries =
     [(''A'', [[(Fin (round64 (- 74.0)), Fin (round64 40.6)), (Fin (round64 (- 73.9)), Fin (round64 40.7))]]),
      (''B'', [[(Fin (round64 (- 73.95)), Fin (round64 40.65))]])]"
  unfolding span_boundaries_def by (simp add: to_float_small)

lemma span_finite: "coords_finite span_boundaries"
  unfolding span_coords coords_finite_def all_coords_def
  by (simp add: round64_small)

lemma span_nonempty: "all_coords span_boundaries \<noteq> []"
  by (simp add: span_boundaries_def all_coords_def)

lemma span_extremes:
  "Min (lons span_boundaries) = round64 (- 74.0)" "Max (lons span_boundaries) = round64 (- 73.9)"
  "Min (lats span_boundaries) = round64 40.6" "Max (lats span_boundaries) = round64 40.7"
  unfolding span_coords lons_def lats_def all_coords_def
  by code_simp+

lemma span_box:
  "bounding_box span_boundaries =
     (Fin (round64 (- 74.002)), Fin (round64 40.598),
      Fin (round64 (- 73.89800000000001)), Fin (round64 40.702000000000005))"
  unfolding bounding_box_eq [OF span_nonempty span_finite] span_extremes
    span_min_lon span_min_lat span_max_lon span_max_lat ..

lemma span_literals:
  "(to_float (- 74.002), to_float 40.598, to_float (- 73.89800000000001), to_float 40.702000000000005) =
     (Fin (round64 (- 74.002)), Fin (round64 40.598),
      Fin (round64 (- 73.89800000000001)), Fin (round64 40.702000000000005))"
  by (simp add: to_float_small)

lemma span_spec_literal: "to_float (- 73.898) = Fin (round64 (- 73.898))"
  by (simp add: to_float_small)

text \<open>
  Claim C7, as the code has it. For a mapping with at least one coordinate, all of
  whose coordinates are finite floats, \<open>bounding_box\<close> returns
  (min_lon - 0.002, min_lat - 0.002, max_lon + 0.002, max_lat + 0.002), the minima and
  maxima taken over every coordinate of every ring, each difference and sum rounded to
  binary64 and 0.002 being the binary64 value of that literal; the four values are
  finite. For the boundary set spanning longitudes [-74.0, -73.9] and latitudes
  [40.6, 40.7] the result is
  (-74.002, 40.598, -73.89800000000001, 40.702000000000005).
\<close>

theorem bounding_box_buffered:
  "(all_coords bs \<noteq> [] \<and> coords_finite bs \<longrightarrow>
      bounding_box bs =
        (Fin (round64 (Min (lons bs) - round64 0.002)), Fin (round64 (Min (lats bs) - round64 0.002)),
         Fin (round64 (Max (lons bs) + round64 0.002)), Fin (round64 (Max (lats bs) + round64 0.002)))
      \<and> bbox_finite (bounding_box bs))
   \<and> bounding_box span_boundaries =
        (to_float (- 74.002), to_float 40.598,
         to_float (- 73.89800000000001), to_float 40.702000000000005)"
proof (intro conjI impI)
  assume a: "all_coords bs \<noteq> [] \<and> coords_finite bs"
  then show "bounding_box bs =
        (Fin (round64 (Min (lons bs) - round64 0.002)), Fin (round64 (Min (lats bs) - round64 0.002)),
         Fin (round64 (Max (lons bs) + round64 0.002)), Fin (round64 (Max (lats bs) + round64 0.002)))"
    using bounding_box_eq by blast
  from a show "bbox_finite (bounding_box bs)" using bounding_box_finite by blast
next
  show "bounding_box span_boundaries =
        (to_float (- 74.002), to_float 40.598,
         to_float (- 73.89800000000001), to_float 40.702000000000005)"
    unfolding span_literals by (rule span_box)
qed

theorem bounding_box_buffered_witness:
  "all_coords span_boundaries \<noteq> [] \<and> coords_finite span_boundaries
   \<and> bounding_box span_boundaries =
        (Fin (round64 (Min (lons span_boundaries) - round64 0.002)),
         Fin (round64 (Min (lats span_boundaries) - round64 0.002)),
         Fin (round64 (Max (lons span_boundaries) + round64 0.002)),
         Fin (round64 (Max (lats span_boundaries) + round64 0.002)))
   \<and> bbox_finite (bounding_box span_boundaries)"
  using bounding_box_buffered [of span_boundaries] span_nonempty span_finite by blast

text \<open>
  The values of the claim's example are not what the code returns: -73.9 + 0.002 is
  -73.89800000000001 in binary64, which is not the float -73.898.
\<close>

theorem bounding_box_counterexample:
  "bounding_box span_boundaries \<noteq>
     (to_float (- 74.002), to_float 40.598, to_float (- 73.898), to_float 40.702)"
  unfolding span_box span_spec_literal using span_max_lon_differs by simp

section \<open>Properties of the paginated fetch\<close>

lemma offsets_Cons:
  "off # map (\<lambda>k. off + ps + k * ps) [0..<n] = map (\<lambda>k. off + k * ps) [0..<Suc n]"
proof -
  have "[0..<Suc n] = 0 # map Suc [0..<n]"
    by (simp add: upt_conv_Cons map_Suc_upt del: upt_Suc)
  then show ?thesis by (simp add: comp_def add.assoc del: upt_Suc)
qed

lemma fetch_loop_run_aux:
  assumes "fetch_loop api ps off all reqs = Some r"
  shows "\<forall>rows reqs'. r = Inr (rows, reqs') \<longrightarrow>
     (\<exists>pages. fetch_run api ps off pages \<and> rows = all @ concat pages \<and>
        reqs' = reqs @ map (\<lambda>k. off + k * ps) [0..<length pages])"
proof (rule fetch_loop.raw_induct
    [where P = "\<lambda>api ps off all reqs r. \<forall>rows reqs'. r = Inr (rows, reqs') \<longrightarrow>
       (\<exists>pages. fetch_run api ps off pages \<and> rows = all @ concat pages \<and>
          reqs' = reqs @ map (\<lambda>k. off + k * ps) [0..<length pages])", OF _ assms],
    goal_cases)
  case (1 f api ps off all reqs r)
  show ?case
  proof (intro allI impI)
    fix rows reqs'
    assume r: "r = Inr (rows, reqs')"
    from r "1"(2) obtain batch where b: "api ps off = Inr batch"
      by (cases "api ps off") auto
    show "\<exists>pages. fetch_run api ps off pages \<and> rows = all @ concat pages \<and>
          reqs' = reqs @ map (\<lambda>k. off + k * ps) [0..<length pages]"
    proof (cases "batch = [] \<or> length batch < ps")
      case True
      then have "rows = all @ concat [batch]" "reqs' = reqs @ [off]"
        using r "1"(2) b by (auto split: if_splits)
      moreover have "fetch_run api ps off [batch]" using b True by (rule last_page)
      ultimately show ?thesis by (intro exI [of _ "[batch]"]) simp
    next
      case False
      then have rec: "f api ps (off + ps) (all @ batch) (reqs @ [off]) = Some r"
        using "1"(2) b by simp
      from "1"(1) [OF rec] r obtain pages where p: "fetch_run api ps (off + ps) pages"
        "rows = (all @ batch) @ concat pages"
        "reqs' = (reqs @ [off]) @ map (\<lambda>k. off + ps + k * ps) [0..<length pages]"
        by blast
      have "fetch_run api ps off (batch # pages)"
        using b False p(1) by (intro full_page) auto
      moreover have "rows = all @ concat (batch # pages)" using p(2) by simp
      moreover have "reqs' = reqs @ map (\<lambda>k. off + k * ps) [0..<length (batch # pages)]"
        using p(3) offsets_Cons [of off ps "length pages"] by (simp del: upt_Suc)
      ultimately show ?thesis by blast
    qed
  qed
qed

lemma fetch_loop_run:
  "fetch_loop api ps off all reqs = Some (Inr (rows, reqs')) \<Longrightarrow>
     \<exists>pages. fetch_run api ps off pages \<and> rows = all @ concat pages \<and>
       reqs' = reqs @ map (\<lambda>k. off + k * ps) [0..<length pages]"
  using fetch_loop_run_aux by blast

lemma fetch_loop_table:
  assumes "0 < ps"
  shows "fetch_loop (table_server src) ps off all reqs =
     Some (Inr (all @ drop off src,
                reqs @ map (\<lambda>k. off + k * ps) [0..<(length src - off) div ps + 1]))"
proof (induction "length src - off" arbitrary: off all reqs rule: less_induct)
  case less
  let ?batch = "take ps (drop off src)"
  show ?case
  proof (cases "length src - off < ps")
    case True
    then have "?batch = drop off src" by simp
    moreover have "(length src - off) div ps = 0" using True by simp
    ultimately show ?thesis using True
      by (subst fetch_loop.simps) (auto simp: table_server_def)
  next
    case False
    then have len: "length ?batch = ps" by simp
    have ne: "?batch \<noteq> []" using len assms by auto
    have dec: "length src - (off + ps) < length src - off" using False assms by simp
    have d: "(length src - off) div ps = Suc ((length src - (off + ps)) div ps)"
    proof -
      have "length src - off = (length src - (off + ps)) + ps" using False by simp
      then show ?thesis using assms by (metis div_add_self2 Suc_eq_plus1 less_numeral_extra(3))
    qed
    have "fetch_loop (table_server src) ps off all reqs =
          fetch_loop (table_server src) ps (off + ps) (all @ ?batch) (reqs @ [off])"
      using len ne by (subst fetch_loop.simps) (simp add: table_server_def)
    also have "\<dots> = Some (Inr ((all @ ?batch) @ drop (off + ps) src,
        (reqs @ [off]) @ map (\<lambda>k. off + ps + k * ps) [0..<(length src - (off + ps)) div ps + 1]))"
      by (rule less [OF dec])
    also have "(all @ ?batch) @ drop (off + ps) src = all @ drop off src"
      by (simp add: add.commute [of off ps] flip: drop_drop)
    also have "(reqs @ [off]) @ map (\<lambda>k. off + ps + k * ps) [0..<(length src - (off + ps)) div ps + 1]
       = reqs @ map (\<lambda>k. off + k * ps) [0..<(length src - off) div ps + 1]"
      using offsets_Cons [of off ps "(length src - (off + ps)) div ps + 1"] d
      by (simp del: upt_Suc)
    finally show ?thesis .
  qed
qed

lemma fetch_pluto_table:
  "fetch_pluto (\<lambda>bbox. table_server src) bbox =
     Some (Inr (src, map (\<lambda>k. k * PAGE_SIZE) [0..<length src div PAGE_SIZE + 1]))"
  unfolding fetch_pluto_def
  using fetch_loop_table [of PAGE_SIZE src 0 "[]" "[]"] by (simp add: PAGE_SIZE_def)

lemma fetch_pluto_120001:
  assumes "length src = 120001"
  shows "fetch_pluto (\<lambda>bbox. table_server src) bbox = Some (Inr (src, [0, 50000, 100000]))"
proof -
  have "length src div PAGE_SIZE + 1 = 3" using assms by (simp add: PAGE_SIZE_def)
  moreover have "[0..<3] = [0, 1, 2::nat]" by (simp add: upt_rec)
  ultimately show ?thesis by (simp add: fetch_pluto_table PAGE_SIZE_def)
qed

lemma fetch_loop_small:
  "fetch_loop (table_server [1, 2, 3 :: nat]) 2 0 [] [] = Some (Inr ([1, 2, 3], [0, 2]))"
  by (simp add: fetch_loop.simps table_server_def)

text \<open>
  C8. Whatever the server answers, a fetch that returns has requested the offsets
  0, page size, twice the page size and so on, every page before the last one was full
  and the last one was empty or shorter than the page size, and the rows returned are
  the pages in order, each once. Against a server that holds a finite table the loop
  terminates, returns exactly the table, and issues one request more than the number
  of full pages; for 120001 rows and the page size 50000 these are the three requests
  at the offsets 0, 50000 and 100000.
\<close>

theorem fetch_pluto_pagination:
  "(fetch_loop api ps off all reqs = Some (Inr (rows, reqs')) \<longrightarrow>
      (\<exists>pages. fetch_run api ps off pages \<and> rows = all @ concat pages \<and>
         reqs' = reqs @ map (\<lambda>k. off + k * ps) [0..<length pages])) \<and>
   fetch_pluto (\<lambda>bbox. table_server src) bbox =
     Some (Inr (src, map (\<lambda>k. k * PAGE_SIZE) [0..<length src div PAGE_SIZE + 1])) \<and>
   (length src = 120001 \<longrightarrow>
      fetch_pluto (\<lambda>bbox. table_server src) bbox = Some (Inr (src, [0, 50000, 100000])))"
  using fetch_loop_run [of api ps off all reqs rows reqs'] fetch_pluto_table [of src bbox]
    fetch_pluto_120001 [of src bbox]
  by blast

theorem fetch_pluto_pagination_witness:
  "fetch_loop (table_server [1, 2, 3 :: nat]) 2 0 [] [] = Some (Inr ([1, 2, 3], [0, 2])) \<and>
   (\<exists>pages. fetch_run (table_server [1, 2, 3 :: nat]) 2 0 pages \<and>
      [1, 2, 3] = [] @ concat pages \<and>
      [0, 2] = [] @ map (\<lambda>k. 0 + k * 2) [0..<length pages]) \<and>
   length (replicate 120001 (0 :: nat)) = 120001 \<and>
   fetch_pluto (\<lambda>bbox. table_server (replicate 120001 (0 :: nat)))
       (PosInf, PosInf, NegInf, NegInf) =
     Some (Inr (replicate 120001 0, [0, 50000, 100000]))"
proof -
  note t = fetch_pluto_pagination [where api = "table_server [1, 2, 3 :: nat]" and ps = 2
      and off = 0 and all = "[]" and reqs = "[]" and rows = "[1, 2, 3]" and reqs' = "[0, 2]"
      and src = "replicate 120001 (0 :: nat)" and bbox = "(PosInf, PosInf, NegInf, NegInf)"]
  note a = fetch_loop_small
  from t a have b: "\<exists>pages. fetch_run (table_server [1, 2, 3 :: nat]) 2 0 pages \<and>
      [1, 2, 3] = [] @ concat pages \<and>
      [0, 2] = [] @ map (\<lambda>k. 0 + k * 2) [0..<length pages]"
    by blast
  have len: "length (replicate 120001 (0 :: nat)) = 120001"
    by (rule length_replicate)
  from t len have c: "fetch_pluto (\<lambda>bbox. table_server (replicate 120001 (0 :: nat)))
       (PosInf, PosInf, NegInf, NegInf) =
     Some (Inr (replicate 120001 0, [0, 50000, 100000]))"
    by blast
  from a b len c show ?thesis by blast
qed

section \<open>Properties of the parser: errors and empty rings\<close>

lemma ring_coords_error: "ring_coords pf pairs coords = Inl e \<Longrightarrow> e = ValueError"
  by (induction pairs arbitrary: coords) (auto simp: Let_def split: if_splits option.splits)

lemma ring_coords_Inr_iff:
  "(\<exists>cs. ring_coords pf pairs coords = Inr cs) \<longleftrightarrow> list_all (readable pf) pairs"
  by (induction pairs arbitrary: coords) (auto simp: Let_def readable_def split: option.splits)

lemma ring_coords_skip:
  "length (split_ws (strip pair)) < 2 \<Longrightarrow>
     ring_coords pf (pair # pairs) coords = ring_coords pf pairs coords"
  by (simp add: Let_def)

lemma exterior_rings_step:
  "exterior_rings pf (block # blocks) result =
     (case block_ring_text block of
        None \<Rightarrow> exterior_rings pf blocks result
      | Some ring_str \<Rightarrow>
          (case ring_coords pf (split_on CHR '','' ring_str) [] of
             Inl e \<Rightarrow> Inl e
           | Inr coords \<Rightarrow>
               exterior_rings pf blocks (if coords \<noteq> [] then result @ [coords] else result)))"
  by (simp add: block_ring_text_def Let_def)

declare exterior_rings.simps(2) [simp del]

lemma rings_nonempty_snoc:
  "rings_nonempty result \<Longrightarrow> c \<noteq> [] \<Longrightarrow> rings_nonempty (result @ [c])"
  by (simp add: rings_nonempty_def)

lemma exterior_rings_error: "exterior_rings pf blocks result = Inl e \<Longrightarrow> e = ValueError"
proof (induction blocks arbitrary: result)
  case Nil
  then show ?case by simp
next
  case (Cons block blocks)
  then show ?case
    unfolding exterior_rings_step
    by (auto split: option.splits sum.splits if_splits dest: ring_coords_error)
qed

lemma exterior_rings_Inr_iff:
  "(\<exists>rs. exterior_rings pf blocks result = Inr rs) \<longleftrightarrow>
     list_all (\<lambda>t. list_all (readable pf) (split_on CHR '','' t))
       (List.map_filter block_ring_text blocks)"
proof (induction blocks arbitrary: result)
  case Nil
  show ?case by simp
next
  case (Cons block blocks)
  show ?case
  proof (cases "block_ring_text block")
    case None
    then show ?thesis using Cons.IH [of result]
      by (simp add: exterior_rings_step)
  next
    case (Some t)
    show ?thesis
    proof (cases "ring_coords pf (split_on CHR '','' t) []")
      case (Inl e)
      then have "\<not> list_all (readable pf) (split_on CHR '','' t)"
        using ring_coords_Inr_iff [of pf "split_on CHR '','' t" "[]"] by simp
      then show ?thesis using Some Inl
        by (simp add: exterior_rings_step)
    next
      case (Inr coords)
      then have "list_all (readable pf) (split_on CHR '','' t)"
        using ring_coords_Inr_iff [of pf "split_on CHR '','' t" "[]"] by auto
      then show ?thesis
        using Some Inr Cons.IH [of "if coords \<noteq> [] then result @ [coords] else result"]
        by (simp add: exterior_rings_step)
    qed
  qed
qed

lemma exterior_rings_nonempty:
  "exterior_rings pf blocks result = Inr rs \<Longrightarrow> rings_nonempty result \<Longrightarrow> rings_nonempty rs"
proof (induction blocks arbitrary: result)
  case Nil
  then show ?case by simp
next
  case (Cons block blocks)
  from Cons.prems show ?case
    unfolding exterior_rings_step
    by (auto split: option.splits sum.splits if_splits
        dest: Cons.IH rings_nonempty_snoc)
qed

lemma parse_wkt_error: "parse_wkt_multipolygon pf wkt = Inl e \<Longrightarrow> e = ValueError"
  by (auto simp: parse_wkt_multipolygon_def Let_def dest: exterior_rings_error)

lemma parse_wkt_Inr_iff:
  "(\<exists>rings. parse_wkt_multipolygon pf wkt = Inr rings) \<longleftrightarrow>
     list_all (\<lambda>t. list_all (readable pf) (split_on CHR '','' t)) (exterior_texts wkt)"
  by (simp add: parse_wkt_multipolygon_def exterior_texts_def Let_def exterior_rings_Inr_iff)

lemma parse_wkt_nonempty:
  "parse_wkt_multipolygon pf wkt = Inr rings \<Longrightarrow> rings_nonempty rings"
  unfolding parse_wkt_multipolygon_def Let_def
  by (erule exterior_rings_nonempty) (simp add: rings_nonempty_def)

lemma parse_bad_token:
  "parse_wkt_multipolygon decimal_float ''MULTIPOLYGON (((1 2, 3 x, 5 6, 1 2)))'' = Inl ValueError"
  by code_simp

lemma parse_short_pairs:
  "parse_wkt_multipolygon decimal_float ''MULTIPOLYGON (((1, 3,)), ((1 2)))'' = Inr [[(Fin 1, Fin 2)]]"
  by code_simp

text \<open>
  C6 (as the code has it). The only error \<open>parse_wkt_multipolygon\<close> raises is
  ValueError, and it returns without one exactly when \<open>float\<close> can read the first
  two parts of every pair, with two parts or more, of every ring text the scan
  reaches. A pair with fewer than two parts is skipped, and a ring left with no pair
  is not appended; a part \<open>float\<close> cannot read is not skipped: it ends the parse.
\<close>

theorem parse_wkt_errors:
  "(parse_wkt_multipolygon pf wkt = Inl e \<longrightarrow> e = ValueError) \<and>
   ((\<exists>rings. parse_wkt_multipolygon pf wkt = Inr rings) \<longleftrightarrow>
      list_all (\<lambda>t. list_all (readable pf) (split_on CHR '','' t)) (exterior_texts wkt)) \<and>
   (length (split_ws (strip pair)) < 2 \<longrightarrow>
      ring_coords pf (pair # pairs) coords = ring_coords pf pairs coords) \<and>
   (parse_wkt_multipolygon pf wkt = Inr rings \<longrightarrow> rings_nonempty rings)"
  using parse_wkt_error [of pf wkt e] parse_wkt_Inr_iff [of pf wkt]
    ring_coords_skip [of pair pf pairs coords] parse_wkt_nonempty [of pf wkt rings]
  by blast

theorem parse_wkt_errors_witness:
  "parse_wkt_multipolygon decimal_float ''MULTIPOLYGON (((1, 3,)), ((1 2)))'' = Inr [[(Fin 1, Fin 2)]] \<and>
   list_all (\<lambda>t. list_all (readable decimal_float) (split_on CHR '','' t))
     (exterior_texts ''MULTIPOLYGON (((1, 3,)), ((1 2)))'') \<and>
   rings_nonempty [[(Fin 1, Fin 2)]]"
  using parse_wkt_errors [of decimal_float "''MULTIPOLYGON (((1, 3,)), ((1 2)))''" ValueError
      "''1''" "[]" "[]" "[[(Fin 1, Fin 2)]]"] parse_short_pairs
  by auto

text \<open>
  C6 as stated is false: a ring with the coordinate token \<open>x\<close> is not skipped, the
  parse raises ValueError.
\<close>

theorem parse_wkt_bad_token_counterexample:
  "parse_wkt_multipolygon decimal_float ''MULTIPOLYGON (((1 2, 3 x, 5 6, 1 2)))'' = Inl ValueError"
  by code_simp

section \<open>Properties of the loaded boundaries\<close>

lemma dict_set_subset: "set (dict_set k v d) \<subseteq> insert (k, v) (set d)"
  by (induction d) (auto split: if_splits)

lemma dict_set_nonempty_list: "dict_set k v d \<noteq> []"
  by (cases d) (auto split: if_splits)

lemma dict_set_keys:
  "map fst (dict_set k v d) = (if k \<in> fst ` set d then map fst d else map fst d @ [k])"
proof (induction d)
  case Nil
  show ?case by simp
next
  case (Cons p d)
  obtain k' v' where p: "p = (k', v')" by (cases p)
  show ?case
  proof (cases "k' = k")
    case True
    then show ?thesis by (simp add: p)
  next
    case False
    then have "k \<in> fst ` set (p # d) \<longleftrightarrow> k \<in> fst ` set d" by (auto simp: p)
    then show ?thesis using False Cons.IH by (simp add: p)
  qed
qed

lemma dict_set_distinct: "distinct (map fst d) \<Longrightarrow> distinct (map fst (dict_set k v d))"
  by (simp add: dict_set_keys)

lemma dict_set_boundaries_nonempty:
  "boundaries_nonempty bs \<Longrightarrow> rings \<noteq> [] \<Longrightarrow> rings_nonempty rings \<Longrightarrow>
     boundaries_nonempty (dict_set name rings bs)"
  using dict_set_subset [of name rings bs]
  by (auto simp: boundaries_nonempty_def list_all_iff)

lemma load_rows_invariant:
  "load_rows pf names rows bs = Inr bs' \<Longrightarrow> boundaries_nonempty bs \<Longrightarrow> distinct (map fst bs) \<Longrightarrow>
     boundaries_nonempty bs' \<and> distinct (map fst bs')"
proof (induction rows arbitrary: bs)
  case Nil
  then show ?case by simp
next
  case (Cons row rows)
  from Cons.prems(1) obtain cell where cell: "csv_get row ''F_ALL_BI_2'' = Some cell"
    by (cases "csv_get row ''F_ALL_BI_2''") auto
  show ?case
  proof (cases "strip cell \<in> set names")
    case False
    then have "load_rows pf names rows bs = Inr bs'"
      using Cons.prems(1) cell by (simp add: Let_def)
    then show ?thesis using Cons.IH Cons.prems(2,3) by blast
  next
    case True
    from Cons.prems(1) cell True obtain wkt where wkt: "csv_get row ''the_geom'' = Some wkt"
      by (cases "csv_get row ''the_geom''") (auto simp: Let_def)
    from Cons.prems(1) cell True wkt obtain rings
      where rings: "parse_wkt_multipolygon pf wkt = Inr rings"
      by (cases "parse_wkt_multipolygon pf wkt") (auto simp: Let_def)
    let ?bs = "if rings \<noteq> [] then dict_set (strip cell) rings bs else bs"
    have rec: "load_rows pf names rows ?bs = Inr bs'"
      using Cons.prems(1) cell True wkt rings by (simp add: Let_def)
    have "boundaries_nonempty ?bs"
      using Cons.prems(2) parse_wkt_nonempty [OF rings] dict_set_boundaries_nonempty by simp
    moreover have "distinct (map fst ?bs)"
      using Cons.prems(3) by (simp add: dict_set_distinct)
    ultimately show ?thesis using Cons.IH [OF rec] by blast
  qed
qed

lemma load_bid_boundaries_invariant:
  "load_bid_boundaries pf csv names = Inr bs \<Longrightarrow> boundaries_nonempty bs \<and> distinct (map fst bs)"
  unfolding load_bid_boundaries_def
  by (erule load_rows_invariant) (simp_all add: boundaries_nonempty_def)

lemma boundaries_nonempty_coords:
  "boundaries_nonempty bs \<Longrightarrow> bs \<noteq> [] \<Longrightarrow> all_coords bs \<noteq> []"
proof -
  assume a: "boundaries_nonempty bs" "bs \<noteq> []"
  then obtain n rings rest where bs: "bs = (n, rings) # rest" by (cases bs) auto
  with a obtain r rs where rings: "rings = r # rs" "r \<noteq> []"
    by (cases rings) (auto simp: boundaries_nonempty_def rings_nonempty_def)
  show ?thesis by (simp add: all_coords_def bs rings)
qed

lemma GOWANUS_BOUNDARY_nonempty: "GOWANUS_BOUNDARY \<noteq> []"
  by (simp add: GOWANUS_BOUNDARY_def GOWANUS_LITERALS_def)

lemma inject_nonempty:
  "boundaries_nonempty bs \<Longrightarrow>
     boundaries_nonempty (dict_set ''Gowanus BID (Proposed)'' [GOWANUS_BOUNDARY] bs)"
  by (rule dict_set_boundaries_nonempty) (simp_all add: rings_nonempty_def GOWANUS_BOUNDARY_nonempty)

lemma gowanus_literals_small: "\<forall>(lon, lat) \<in> set GOWANUS_LITERALS. \<bar>lon\<bar> \<le> 1000 \<and> \<bar>lat\<bar> \<le> 1000"
  by (simp add: GOWANUS_LITERALS_def)

lemma to_float_small_finite: "\<bar>x\<bar> \<le> 1000 \<Longrightarrow> finite_float (to_float x)"
  by (simp add: to_float_small round64_small)

lemma GOWANUS_BOUNDARY_finite:
  "list_all (\<lambda>(lon, lat). finite_float lon \<and> finite_float lat) GOWANUS_BOUNDARY"
  unfolding GOWANUS_BOUNDARY_def list_all_iff
  using gowanus_literals_small by (auto simp: to_float_small_finite)

lemma inject_finite:
  assumes "coords_finite bs"
  shows "coords_finite (dict_set ''Gowanus BID (Proposed)'' [GOWANUS_BOUNDARY] bs)"
proof -
  have "set (all_coords (dict_set k v d)) \<subseteq> set (concat v) \<union> set (all_coords d)" for k v d
    using dict_set_subset [of k v d] unfolding all_coords_def by fastforce
  then show ?thesis
    using assms GOWANUS_BOUNDARY_finite unfolding coords_finite_def list_all_iff
    by fastforce
qed

lemma bbox_step_max_lon:
  "foldl bbox_step (a, PosInf, c, d) cs = (a', b', c', d') \<Longrightarrow> b' = PosInf"
proof (induction cs arbitrary: a c d)
  case Nil
  then show ?case by simp
next
  case (Cons p cs)
  obtain lon lat where p: "p = (lon, lat)" by (cases p)
  have "py_max PosInf lon = PosInf" by (cases lon) (simp_all add: py_max_def f_gt_def)
  then show ?case using Cons.prems Cons.IH by (simp add: p)
qed

lemma bbox_infinite:
  assumes "bs = (n, ((PosInf, lat) # ring) # rings) # rest"
  shows "\<not> bbox_finite (bounding_box bs)"
proof -
  obtain a b c d where f: "foldl bbox_step (py_min PosInf PosInf, PosInf, py_min PosInf lat, py_max NegInf lat)
      (concat (concat (map snd ((n, ring # rings) # rest)))) = (a, b, c, d)"
    using prod_cases4 by blast
  have b: "b = PosInf" using bbox_step_max_lon [OF f] .
  have h: "foldl (\<lambda>acc rings. foldl (\<lambda>acc ring. foldl bbox_step acc ring) acc rings)
          (PosInf, NegInf, PosInf, NegInf) (map snd bs) = (a, PosInf, c, d)"
    unfolding bbox_nested_foldl using f b
    by (simp add: assms py_max_def f_gt_def)
  have buf: "f_add64 PosInf (to_float 0.002) = PosInf"
    unfolding buf_value by (simp add: f_add64_def)
  show ?thesis
    unfolding bounding_box_def h Let_def prod.case buf by simp
qed

lemma load_dumbo:
  "load_bid_boundaries decimal_float dumbo_csv BROOKLYN_BIDS =
     Inr [(''DUMBO'', [[(Fin 1, Fin 2), (Fin 3, Fin 4), (Fin 5, Fin 6), (Fin 1, Fin 2)],
                       [(Fin 7, Fin 8), (Fin 9, Fin 10), (Fin 7, Fin 8)]])]"
  by code_simp

lemma load_inf:
  "load_bid_boundaries decimal_float inf_csv BROOKLYN_BIDS =
     Inr [(''DUMBO'', [[(PosInf, PosInf), (Fin 0, Fin 0)]])]"
  by code_simp

lemma dumbo_finite:
  "coords_finite [(''DUMBO'', [[(Fin 1, Fin 2), (Fin 3, Fin 4), (Fin 5, Fin 6), (Fin 1, Fin 2)],
                       [(Fin 7, Fin 8), (Fin 9, Fin 10), (Fin 7, Fin 8)]])]"
  using max_float_pos by (simp add: coords_finite_def all_coords_def)

text \<open>
  Claim C9, as the code has it. Every value of the mapping \<open>load_bid_boundaries\<close>
  returns is a list of rings that is not empty, and none of its rings is empty. When
  every coordinate of the returned mapping is a finite float, \<open>bounding_box\<close> gives
  four finite values for the mapping if it is not empty, and for the mapping with the
  Gowanus boundary injected.
\<close>

theorem loaded_boundaries_nonempty:
  "load_bid_boundaries pf csv names = Inr bs \<longrightarrow>
     boundaries_nonempty bs \<and>
     (bs \<noteq> [] \<and> coords_finite bs \<longrightarrow> bbox_finite (bounding_box bs)) \<and>
     (coords_finite bs \<longrightarrow>
        bbox_finite (bounding_box (dict_set ''Gowanus BID (Proposed)'' [GOWANUS_BOUNDARY] bs)))"
proof
  assume l: "load_bid_boundaries pf csv names = Inr bs"
  have ne: "boundaries_nonempty bs"
    using load_bid_boundaries_invariant [OF l] by (rule conjunct1)
  have c1: "bs \<noteq> [] \<and> coords_finite bs \<longrightarrow> bbox_finite (bounding_box bs)"
  proof
    assume a: "bs \<noteq> [] \<and> coords_finite bs"
    then have "all_coords bs \<noteq> []" using boundaries_nonempty_coords [OF ne] by blast
    then show "bbox_finite (bounding_box bs)" using a bounding_box_finite by blast
  qed
  have c2: "coords_finite bs \<longrightarrow>
        bbox_finite (bounding_box (dict_set ''Gowanus BID (Proposed)'' [GOWANUS_BOUNDARY] bs))"
  proof
    assume "coords_finite bs"
    then have "coords_finite (dict_set ''Gowanus BID (Proposed)'' [GOWANUS_BOUNDARY] bs)"
      by (rule inject_finite)
    then show "bbox_finite (bounding_box (dict_set ''Gowanus BID (Proposed)'' [GOWANUS_BOUNDARY] bs))"
      by (rule bounding_box_finite
        [OF boundaries_nonempty_coords [OF inject_nonempty [OF ne] dict_set_nonempty_list]])
  qed
  show "boundaries_nonempty bs \<and>
     (bs \<noteq> [] \<and> coords_finite bs \<longrightarrow> bbox_finite (bounding_box bs)) \<and>
     (coords_finite bs \<longrightarrow>
        bbox_finite (bounding_box (dict_set ''Gowanus BID (Proposed)'' [GOWANUS_BOUNDARY] bs)))"
    by (intro conjI ne c1 c2)
qed

theorem loaded_boundaries_nonempty_witness:
  "load_bid_boundaries decimal_float dumbo_csv BROOKLYN_BIDS =
     Inr [(''DUMBO'', [[(Fin 1, Fin 2), (Fin 3, Fin 4), (Fin 5, Fin 6), (Fin 1, Fin 2)],
                       [(Fin 7, Fin 8), (Fin 9, Fin 10), (Fin 7, Fin 8)]])] \<and>
   coords_finite [(''DUMBO'', [[(Fin 1, Fin 2), (Fin 3, Fin 4), (Fin 5, Fin 6), (Fin 1, Fin 2)],
                       [(Fin 7, Fin 8), (Fin 9, Fin 10), (Fin 7, Fin 8)]])] \<and>
   boundaries_nonempty [(''DUMBO'', [[(Fin 1, Fin 2), (Fin 3, Fin 4), (Fin 5, Fin 6), (Fin 1, Fin 2)],
                       [(Fin 7, Fin 8), (Fin 9, Fin 10), (Fin 7, Fin 8)]])] \<and>
   bbox_finite (bounding_box [(''DUMBO'', [[(Fin 1, Fin 2), (Fin 3, Fin 4), (Fin 5, Fin 6), (Fin 1, Fin 2)],
                       [(Fin 7, Fin 8), (Fin 9, Fin 10), (Fin 7, Fin 8)]])]) \<and>
   bbox_finite (bounding_box (dict_set ''Gowanus BID (Proposed)'' [GOWANUS_BOUNDARY]
     [(''DUMBO'', [[(Fin 1, Fin 2), (Fin 3, Fin 4), (Fin 5, Fin 6), (Fin 1, Fin 2)],
                       [(Fin 7, Fin 8), (Fin 9, Fin 10), (Fin 7, Fin 8)]])]))"
  using loaded_boundaries_nonempty [of decimal_float dumbo_csv BROOKLYN_BIDS
      "[(''DUMBO'', [[(Fin 1, Fin 2), (Fin 3, Fin 4), (Fin 5, Fin 6), (Fin 1, Fin 2)],
                       [(Fin 7, Fin 8), (Fin 9, Fin 10), (Fin 7, Fin 8)]])]"] load_dumbo dumbo_finite
  by blast

text \<open>
  The claim as stated is false: \<open>float\<close> reads the token \<open>inf\<close>, so a tracked row whose
  ring has it is loaded, and the bounding box of the returned mapping is not finite,
  with the Gowanus boundary injected or not.
\<close>

theorem loaded_boundaries_counterexample:
  "load_bid_boundaries decimal_float inf_csv BROOKLYN_BIDS =
     Inr [(''DUMBO'', [[(PosInf, PosInf), (Fin 0, Fin 0)]])] \<and>
   \<not> bbox_finite (bounding_box [(''DUMBO'', [[(PosInf, PosInf), (Fin 0, Fin 0)]])]) \<and>
   \<not> bbox_finite (bounding_box (dict_set ''Gowanus BID (Proposed)'' [GOWANUS_BOUNDARY]
        [(''DUMBO'', [[(PosInf, PosInf), (Fin 0, Fin 0)]])]))"
proof (intro conjI)
  show "load_bid_boundaries decimal_float inf_csv BROOKLYN_BIDS =
     Inr [(''DUMBO'', [[(PosInf, PosInf), (Fin 0, Fin 0)]])]"
    by (rule load_inf)
  show "\<not> bbox_finite (bounding_box [(''DUMBO'', [[(PosInf, PosInf), (Fin 0, Fin 0)]])])"
    by (rule bbox_infinite) simp
  show "\<not> bbox_finite (bounding_box (dict_set ''Gowanus BID (Proposed)'' [GOWANUS_BOUNDARY]
        [(''DUMBO'', [[(PosInf, PosInf), (Fin 0, Fin 0)]])]))"
    by (rule bbox_infinite) simp
qed


end
